theory Spec2Isabelle
  imports Main
begin

section \<open>Event validation, routing and batch dispatch of pulsar-api\<close>

text \<open>
  A shallow embedding of \<^verbatim>\<open>internal/api/events.go\<close> and of the \<^verbatim>\<open>Send\<close> method of
  \<^verbatim>\<open>internal/pulsar\<close>. Go strings and byte slices are \<open>string\<close> (a list of 8-bit
  characters). The values of type \<^verbatim>\<open>interface{}\<close> held by a payload are a type variable
  \<open>'v\<close>: the handlers never look inside them. Go's \<^verbatim>\<open>int\<close> is \<open>nat\<close> here: the only
  integers of the code are loop indices and lengths of slices.
\<close>

subsection \<open>Data\<close>

type_synonym bytes = string

text \<open>\<^verbatim>\<open>map[string]interface{}\<close>: a key may be present with any value, also JSON's null.\<close>

record 'v EventRequest =
  EventType :: string
  SourceSystem :: string
  Payload :: "string \<rightharpoonup> 'v"

text \<open>
  The responses hold a pointer \<^verbatim>\<open>*EventRequest\<close>: an address, or \<open>None\<close> for nil. What the
  pointer refers to is read from the heap when the response is written.
\<close>

type_synonym addr = nat

type_synonym 'v heap = "addr \<rightharpoonup> 'v EventRequest"

record EventResponse =
  Status_resp :: string
  Topic_resp :: string
  Bytes_resp :: nat
  DryRun_resp :: bool
  CorrelationID_resp :: string
  MessageID_resp :: string
  Event_resp :: "addr option"

record BatchItemResult =
  Index :: nat
  Status_item :: string
  Topic_item :: string
  Bytes_item :: nat
  MessageID_item :: string
  Error_item :: string
  CorrelationID_item :: string
  Event_item :: "addr option"

record BatchResponse =
  Status_batch :: string
  Count :: nat
  DryRun_batch :: bool
  Results :: "BatchItemResult list"

text \<open>
  The handler. \<^verbatim>\<open>Producer\<close> is a pointer to the broker connection, whose state is \<open>'p\<close>;
  \<^verbatim>\<open>main\<close> leaves it nil in dry-run mode. The logger is left out: it only writes log lines.
\<close>

record 'p EventHandler =
  Producer :: "'p option"
  Topic :: string
  SchemaMap :: "string \<rightharpoonup> string"
  DryRun :: bool

text \<open>
  The two library calls of the handlers, taken as parameters: \<^verbatim>\<open>json.Marshal\<close> on a request
  (\<open>Inl\<close> the error text, \<open>Inr\<close> the bytes) and the Pulsar client's \<^verbatim>\<open>Send\<close> (\<open>Inl\<close> the
  error text, \<open>Inr\<close> the message identifier as a string, and the connection afterwards).
\<close>

record ('v, 'p) Libs =
  jsonMarshal :: "'v EventRequest \<Rightarrow> string + bytes"
  pulsarSend :: "'p \<Rightarrow> bytes \<Rightarrow> (string + string) \<times> 'p"

text \<open>A call either returns or panics (a nil pointer dereference).\<close>

datatype 'a exec = Panicked | Returned 'a

text \<open>
  A call \<^verbatim>\<open>c.JSON(code, obj)\<close>: the status code, the object handed to the encoder, and
  the heap at that moment, from which the encoder reads the events the object points to.
  \<^verbatim>\<open>gin.H\<close> is a list of keys with their string values.
\<close>

datatype Body = H "(string \<times> string) list" | EventBody EventResponse | BatchBody BatchResponse

record 'v Written =
  status_code :: nat
  json_body :: Body
  heap_written :: "'v heap"

abbreviation StatusOK :: nat where "StatusOK \<equiv> 200"
abbreviation StatusCreated :: nat where "StatusCreated \<equiv> 201"
abbreviation StatusBadRequest :: nat where "StatusBadRequest \<equiv> 400"
abbreviation StatusInternalServerError :: nat where "StatusInternalServerError \<equiv> 500"

subsection \<open>Validation and routing\<close>

definition eventTypeTopicMap :: "string \<rightharpoonup> string" where
  "eventTypeTopicMap =
     [''SIGNALITIEK_ERROR'' \<mapsto> ''persistent://tenant/ns/signalitiek-errors'',
      ''WAGE_ERROR'' \<mapsto> ''persistent://tenant/ns/wage-errors'']"

text \<open>The returned \<^verbatim>\<open>error\<close> is its message, \<open>None\<close> for nil.\<close>

definition validateEventSchema :: "'v EventRequest \<Rightarrow> string option" where
  "validateEventSchema req =
     (if EventType req = ''SIGNALITIEK_ERROR'' then
        (if Payload req ''errorCode'' = None then
           Some ''payload.errorCode is required for SIGNALITIEK_ERROR''
         else if Payload req ''employerId'' = None then
           Some ''payload.employerId is required for SIGNALITIEK_ERROR''
         else None)
      else if EventType req = ''WAGE_ERROR'' then
        (if Payload req ''dossierId'' = None then
           Some ''payload.dossierId is required for WAGE_ERROR''
         else None)
      else None)"

definition NewEventHandler ::
  "'p option \<Rightarrow> string \<Rightarrow> bool \<Rightarrow> (string \<rightharpoonup> string) \<Rightarrow> 'p EventHandler" where
  "NewEventHandler producer topic dryRun schemaMap =
     \<lparr>Producer = producer, Topic = topic, SchemaMap = schemaMap, DryRun = dryRun\<rparr>"

definition resolveTopic :: "'p EventHandler \<Rightarrow> 'v EventRequest \<Rightarrow> string" where
  "resolveTopic h req =
     (case eventTypeTopicMap (EventType req) of
        Some t \<Rightarrow> t
      | None \<Rightarrow> Topic h)"

subsection \<open>The producer\<close>

text \<open>
  \<^verbatim>\<open>(p *Producer) Send\<close> returns the pair of the message identifier and the error; on a nil
  receiver the read of \<^verbatim>\<open>p.producer\<close> panics.
\<close>

definition Send ::
  "('v, 'p) Libs \<Rightarrow> 'p option \<Rightarrow> bytes \<Rightarrow> ((string \<times> string option) \<times> 'p option) exec" where
  "Send L p msg =
     (case p of
        None \<Rightarrow> Panicked
      | Some conn \<Rightarrow>
          (case pulsarSend L conn msg of
             (Inl err, conn') \<Rightarrow> Returned (('''', Some err), Some conn')
           | (Inr msgID, conn') \<Rightarrow> Returned ((msgID, None), Some conn')))"

subsection \<open>POST /api/v1/events\<close>

text \<open>
  The handler reads two things from the gin context: the correlation identifier and the
  result of \<^verbatim>\<open>c.ShouldBindJSON\<close> (\<open>Inl\<close> the error text when the body does not decode).
  The request variable \<^verbatim>\<open>req\<close> is at address 0.
\<close>

definition PostEvent ::
  "('v, 'p) Libs \<Rightarrow> 'p EventHandler \<Rightarrow> string \<Rightarrow> string + 'v EventRequest
     \<Rightarrow> ('v Written \<times> 'p EventHandler) exec" where
  "PostEvent L h corrID bound =
     (case bound of
        Inl err \<Rightarrow>
          Returned (\<lparr>status_code = StatusBadRequest,
                     json_body = H [(''status'', ''error''), (''error'', ''invalid request body''),
                                    (''details'', err), (''correlationId'', corrID)],
                     heap_written = Map.empty\<rparr>, h)
      | Inr req \<Rightarrow>
          (let hp = [0 \<mapsto> req] in
           case validateEventSchema req of
             Some err \<Rightarrow>
               Returned (\<lparr>status_code = StatusBadRequest,
                          json_body = H [(''status'', ''error''),
                                         (''error'', ''schema validation failed''),
                                         (''details'', err), (''correlationId'', corrID)],
                          heap_written = hp\<rparr>, h)
           | None \<Rightarrow>
               (case jsonMarshal L req of
                  Inl err \<Rightarrow>
                    Returned (\<lparr>status_code = StatusInternalServerError,
                               json_body = H [(''status'', ''error''),
                                              (''error'', ''internal serialization error''),
                                              (''correlationId'', corrID)],
                               heap_written = hp\<rparr>, h)
                | Inr payloadBytes \<Rightarrow>
                    (let topic = resolveTopic h req;
                         resp = \<lparr>Status_resp = '''', Topic_resp = topic,
                                 Bytes_resp = length payloadBytes, DryRun_resp = DryRun h,
                                 CorrelationID_resp = corrID, MessageID_resp = '''',
                                 Event_resp = Some 0\<rparr>
                     in if DryRun h then
                          Returned (\<lparr>status_code = StatusOK,
                                     json_body = EventBody (resp\<lparr>Status_resp := ''dry-run''\<rparr>),
                                     heap_written = hp\<rparr>, h)
                        else
                          (case Send L (Producer h) payloadBytes of
                             Panicked \<Rightarrow> Panicked
                           | Returned ((msgID, err), p') \<Rightarrow>
                               (case err of
                                  Some e \<Rightarrow>
                                    Returned (\<lparr>status_code = StatusInternalServerError,
                                               json_body = H [(''status'', ''error''),
                                                              (''error'', ''failed sending to Pulsar''),
                                                              (''details'', e),
                                                              (''correlationId'', corrID)],
                                               heap_written = hp\<rparr>, h\<lparr>Producer := p'\<rparr>)
                                | None \<Rightarrow>
                                    Returned (\<lparr>status_code = StatusCreated,
                                               json_body = EventBody (resp\<lparr>Status_resp := ''sent'',
                                                                           MessageID_resp := msgID\<rparr>),
                                               heap_written = hp\<rparr>, h\<lparr>Producer := p'\<rparr>)))))))"

subsection \<open>POST /api/v1/events/batch\<close>

text \<open>
  Every entry of the batch takes the address of the loop variable \<^verbatim>\<open>req\<close>
  (\<^verbatim>\<open>Event: &req\<close>). Which variable that is depends on the language version the module
  declares in \<^verbatim>\<open>go.mod\<close>: from Go 1.22 each iteration has a variable of its own, before
  that one variable is shared by all iterations. The version is a parameter of the loop.
\<close>

datatype LoopVar = PerIteration | PerLoop

definition reqAddr :: "LoopVar \<Rightarrow> nat \<Rightarrow> addr" where
  "reqAddr sem i = (case sem of PerIteration \<Rightarrow> i | PerLoop \<Rightarrow> 0)"

text \<open>The body of the loop for the entry at index \<open>i\<close>, whose variable is at address \<open>a\<close>.\<close>

definition batchItem ::
  "('v, 'p) Libs \<Rightarrow> 'p EventHandler \<Rightarrow> string \<Rightarrow> nat \<Rightarrow> addr \<Rightarrow> 'v EventRequest
     \<Rightarrow> (BatchItemResult \<times> 'p EventHandler) exec" where
  "batchItem L h corrID i a req =
     (let r = \<lparr>Index = i, Status_item = '''', Topic_item = '''', Bytes_item = 0,
               MessageID_item = '''', Error_item = '''', CorrelationID_item = corrID,
               Event_item = Some a\<rparr>
      in case validateEventSchema req of
           Some err \<Rightarrow>
             Returned (r\<lparr>Status_item := ''error'',
                         Error_item := ''schema validation failed: '' @ err\<rparr>, h)
         | None \<Rightarrow>
             (case jsonMarshal L req of
                Inl err \<Rightarrow>
                  Returned (r\<lparr>Status_item := ''error'',
                              Error_item := ''marshal error: '' @ err\<rparr>, h)
              | Inr payloadBytes \<Rightarrow>
                  (let r = r\<lparr>Topic_item := resolveTopic h req,
                             Bytes_item := length payloadBytes\<rparr>
                   in if DryRun h then Returned (r\<lparr>Status_item := ''dry-run''\<rparr>, h)
                      else
                        (case Send L (Producer h) payloadBytes of
                           Panicked \<Rightarrow> Panicked
                         | Returned ((msgID, err), p') \<Rightarrow>
                             (case err of
                                Some e \<Rightarrow>
                                  Returned (r\<lparr>Status_item := ''error'',
                                              Error_item := ''send error: '' @ e\<rparr>,
                                            h\<lparr>Producer := p'\<rparr>)
                              | None \<Rightarrow>
                                  Returned (r\<lparr>Status_item := ''sent'',
                                              MessageID_item := msgID\<rparr>,
                                            h\<lparr>Producer := p'\<rparr>))))))"

text \<open>
  The loop over the decoded requests, from index \<open>i\<close>: the state is the handler, the heap
  and the results appended so far.
\<close>

fun batchLoop ::
  "LoopVar \<Rightarrow> ('v, 'p) Libs \<Rightarrow> string \<Rightarrow> nat \<Rightarrow> 'v EventRequest list
     \<Rightarrow> 'p EventHandler \<times> 'v heap \<times> BatchItemResult list
     \<Rightarrow> ('p EventHandler \<times> 'v heap \<times> BatchItemResult list) exec" where
  "batchLoop sem L corrID i [] st = Returned st"
| "batchLoop sem L corrID i (req # rest) (h, hp, results) =
     (let a = reqAddr sem i; hp' = hp(a \<mapsto> req)
      in case batchItem L h corrID i a req of
           Panicked \<Rightarrow> Panicked
         | Returned (r, h') \<Rightarrow> batchLoop sem L corrID (Suc i) rest (h', hp', results @ [r]))"

definition PostBatch ::
  "LoopVar \<Rightarrow> ('v, 'p) Libs \<Rightarrow> 'p EventHandler \<Rightarrow> string \<Rightarrow> string + 'v EventRequest list
     \<Rightarrow> ('v Written \<times> 'p EventHandler) exec" where
  "PostBatch sem L h corrID bound =
     (case bound of
        Inl err \<Rightarrow>
          Returned (\<lparr>status_code = StatusBadRequest,
                     json_body = H [(''status'', ''error''), (''error'', ''invalid batch body''),
                                    (''details'', err), (''correlationId'', corrID)],
                     heap_written = Map.empty\<rparr>, h)
      | Inr reqs \<Rightarrow>
          (case batchLoop sem L corrID 0 reqs (h, Map.empty, []) of
             Panicked \<Rightarrow> Panicked
           | Returned (h', hp, results) \<Rightarrow>
               Returned (\<lparr>status_code = StatusOK,
                          json_body = BatchBody
                            \<lparr>Status_batch = (if DryRun h then ''dry-run'' else ''sent''),
                             Count = length results, DryRun_batch = DryRun h,
                             Results = results\<rparr>,
                          heap_written = hp\<rparr>, h')))"

text \<open>The event that the encoder writes for a pointer: the heap's value at its address.\<close>

definition echoed :: "'v heap \<Rightarrow> addr option \<Rightarrow> 'v EventRequest option" where
  "echoed hp p = (case p of None \<Rightarrow> None | Some a \<Rightarrow> hp a)"


definition encodesEvent :: "('v, 'p) Libs \<Rightarrow> 'v heap \<Rightarrow> addr option \<Rightarrow> bool" where
  "encodesEvent L hp p =
     (case echoed hp p of
        None \<Rightarrow> True
      | Some ev \<Rightarrow> (case jsonMarshal L ev of Inl err \<Rightarrow> False | Inr bs \<Rightarrow> True))"

definition encodes :: "('v, 'p) Libs \<Rightarrow> 'v heap \<Rightarrow> Body \<Rightarrow> bool" where
  "encodes L hp obj =
     (case obj of
        H kvs \<Rightarrow> True
      | EventBody e \<Rightarrow> encodesEvent L hp (Event_resp e)
      | BatchBody b \<Rightarrow> list_all (\<lambda>r. encodesEvent L hp (Event_item r)) (Results b))"

definition body_sent :: "('v, 'p) Libs \<Rightarrow> 'v Written \<Rightarrow> Body option" where
  "body_sent L w =
     (if encodes L (heap_written w) (json_body w) then Some (json_body w) else None)"



text \<open>
  A request passes when it is valid and serialises: these are the requests that reach the
  resolution of the topic and, on a live handler, the broker.
\<close>

definition passes :: "('v, 'p) Libs \<Rightarrow> 'v EventRequest \<Rightarrow> bool" where
  "passes L req =
     (case validateEventSchema req of
        Some err \<Rightarrow> False
      | None \<Rightarrow> (case jsonMarshal L req of Inl err \<Rightarrow> False | Inr bs \<Rightarrow> True))"

text \<open>Readers of a handler's result: the entries of a batch response and the echoed events.\<close>

definition batchResults :: "('v Written \<times> 'p EventHandler) exec \<Rightarrow> BatchItemResult list" where
  "batchResults r =
     (case r of
        Panicked \<Rightarrow> []
      | Returned (w, h) \<Rightarrow> (case json_body w of BatchBody b \<Rightarrow> Results b | _ \<Rightarrow> []))"



definition responseBody ::
  "('v, 'p) Libs \<Rightarrow> ('v Written \<times> 'p EventHandler) exec \<Rightarrow> Body option" where
  "responseBody L r =
     (case r of
        Panicked \<Rightarrow> None
      | Returned (w, h) \<Rightarrow> body_sent L w)"

text \<open>
  The handler as \<^verbatim>\<open>main\<close> builds it: the producer stays nil in dry-run mode and is
  the connection that \<^verbatim>\<open>NewProducer\<close> returned otherwise (\<^verbatim>\<open>NewProducer\<close> ends the
  process when it cannot connect).
\<close>

definition mainHandler ::
  "'p \<Rightarrow> string \<Rightarrow> bool \<Rightarrow> (string \<rightharpoonup> string) \<Rightarrow> 'p EventHandler" where
  "mainHandler conn topic dryRun schemaMap =
     NewEventHandler (if \<not> dryRun then Some conn else None) topic dryRun schemaMap"

text \<open>A handler is wired when it is in dry-run mode or has a producer.\<close>

definition wired :: "'p EventHandler \<Rightarrow> bool" where
  "wired h = (DryRun h \<or> Producer h \<noteq> None)"

subsection \<open>Example data\<close>

text \<open>
  Concrete inputs on which the theorems below are run. The payload values are strings,
  numbers and one value that \<^verbatim>\<open>json.Marshal\<close> refuses. The example serialiser
  and broker stand for the two libraries: the broker keeps the list of the messages it
  accepted and refuses a message of more than 20 bytes.
\<close>

datatype jv = Str string | Num int | NaN

definition demoLibs :: "(jv, bytes list) Libs" where
  "demoLibs =
     \<lparr>jsonMarshal = (\<lambda>req. if Payload req ''amount'' = Some NaN
                             then Inl ''json: unsupported value: NaN''
                             else Inr (EventType req @ '':'' @ SourceSystem req)),
      pulsarSend = (\<lambda>conn msg. if 20 < length msg then (Inl ''message too large'', conn)
                                else (Inr ''1:0:0'', conn @ [msg]))\<rparr>"

definition evSignal :: "jv EventRequest" where
  "evSignal = \<lparr>EventType = ''SIGNALITIEK_ERROR'', SourceSystem = ''EverESSt'',
               Payload = [''errorCode'' \<mapsto> Str ''999999'', ''employerId'' \<mapsto> Str ''123456'']\<rparr>"

definition evSignalNoCode :: "jv EventRequest" where
  "evSignalNoCode = \<lparr>EventType = ''SIGNALITIEK_ERROR'', SourceSystem = ''EverESSt'',
               Payload = [''employerId'' \<mapsto> Str ''123456'']\<rparr>"

definition evSignalNoEmployer :: "jv EventRequest" where
  "evSignalNoEmployer = \<lparr>EventType = ''SIGNALITIEK_ERROR'', SourceSystem = ''EverESSt'',
               Payload = [''errorCode'' \<mapsto> Str ''999999'']\<rparr>"

definition evWage :: "jv EventRequest" where
  "evWage = \<lparr>EventType = ''WAGE_ERROR'', SourceSystem = ''EverESSt'',
             Payload = [''dossierId'' \<mapsto> Str ''ABC-123'']\<rparr>"

definition evWageBad :: "jv EventRequest" where
  "evWageBad = \<lparr>EventType = ''WAGE_ERROR'', SourceSystem = ''EverESSt'', Payload = Map.empty\<rparr>"

definition evOther :: "jv EventRequest" where
  "evOther = \<lparr>EventType = ''AUDIT'', SourceSystem = ''HR'', Payload = Map.empty\<rparr>"

definition evNaN :: "jv EventRequest" where
  "evNaN = \<lparr>EventType = ''AUDIT'', SourceSystem = ''HR'', Payload = [''amount'' \<mapsto> NaN]\<rparr>"

definition dryHandler :: "bytes list EventHandler" where
  "dryHandler = NewEventHandler None ''persistent://tenant/ns/default-topic'' True Map.empty"

definition liveHandler :: "bytes list EventHandler" where
  "liveHandler = NewEventHandler (Some []) ''persistent://tenant/ns/default-topic'' False Map.empty"

text \<open>
  A broker whose connection closes when it refuses a message: the connection is open
  (\<open>True\<close>) or closed, and a closed connection refuses everything.
\<close>

definition closingLibs :: "(jv, bool) Libs" where
  "closingLibs =
     \<lparr>jsonMarshal = (\<lambda>req. if Payload req ''amount'' = Some NaN
                             then Inl ''json: unsupported value: NaN''
                             else Inr (EventType req @ '':'' @ SourceSystem req)),
      pulsarSend = (\<lambda>conn msg. if \<not> conn then (Inl ''producer closed'', False)
                                else if 20 < length msg then (Inl ''message too large'', False)
                                else (Inr ''1:0:0'', True))\<rparr>"

definition closingHandler :: "bool EventHandler" where
  "closingHandler = NewEventHandler (Some True) ''persistent://tenant/ns/default-topic'' False Map.empty"


lemmas demo_defs = demoLibs_def evSignal_def evSignalNoCode_def evSignalNoEmployer_def evWage_def
  evWageBad_def evOther_def evNaN_def dryHandler_def liveHandler_def NewEventHandler_def

section \<open>The loop of the batch handler\<close>

text \<open>
  Every handler that \<^verbatim>\<open>main\<close> builds is wired. On a wired handler the loop body never
  panics: it returns one entry, which carries the index, the correlation identifier and
  the address it was given, and leaves the handler wired with the same configuration.
\<close>

lemma batchItem_wired:
  assumes "wired h"
  shows "\<exists>r h'. batchItem L h corrID i a req = Returned (r, h') \<and> wired h' \<and>
           DryRun h' = DryRun h \<and> Topic h' = Topic h \<and> SchemaMap h' = SchemaMap h \<and>
           Index r = i \<and> CorrelationID_item r = corrID \<and> Event_item r = Some a"
proof (cases "DryRun h")
  case True
  then show ?thesis
    by (simp add: batchItem_def wired_def Let_def split: option.splits sum.splits)
next
  case False
  with assms have "Producer h \<noteq> None" by (simp add: wired_def)
  then obtain p where p: "Producer h = Some p" by auto
  show ?thesis using False p
    by (auto simp add: batchItem_def wired_def Let_def Send_def split: option.splits sum.splits prod.splits)
qed

lemma wired_mainHandler: "wired (mainHandler conn topic dryRun schemaMap)"
  by (simp add: wired_def mainHandler_def NewEventHandler_def)

lemma wired_liveHandler: "wired liveHandler"
  by (simp add: wired_def liveHandler_def NewEventHandler_def)

text \<open>
  The loop over a concatenation is the loop over the first part followed by the loop over
  the second, started at the index and in the state the first part ended in.
\<close>

lemma batchLoop_append:
  "batchLoop sem L corrID i (xs @ ys) st =
     (case batchLoop sem L corrID i xs st of
        Panicked \<Rightarrow> Panicked
      | Returned st' \<Rightarrow> batchLoop sem L corrID (i + length xs) ys st')"
proof (induction xs arbitrary: i st)
  case Nil
  then show ?case by simp
next
  case (Cons x xs)
  obtain h hp acc where st: "st = (h, hp, acc)" by (cases st) 
  show ?case unfolding st
    by (simp add: Let_def Cons.IH split: exec.splits)
qed

text \<open>
  On a wired handler the loop returns: it appends one entry for each request, and the
  entry of the request at position \<open>k\<close> is what the loop body returns for that request
  at index \<open>i + k\<close>.
\<close>

lemma batchLoop_run:
  assumes "wired h"
  shows "\<exists>h' hp' rs. batchLoop sem L corrID i reqs (h, hp, acc) = Returned (h', hp', acc @ rs) \<and>
           length rs = length reqs \<and> wired h' \<and>
           DryRun h' = DryRun h \<and> Topic h' = Topic h \<and> SchemaMap h' = SchemaMap h \<and>
           (\<forall>k<length reqs. \<exists>hk hk'. wired hk \<and> DryRun hk = DryRun h \<and> Topic hk = Topic h \<and>
               batchItem L hk corrID (i + k) (reqAddr sem (i + k)) (reqs ! k) = Returned (rs ! k, hk'))"
  using assms
proof (induction reqs arbitrary: i h hp acc)
  case Nil
  then show ?case by simp
next
  case (Cons x xs)
  from batchItem_wired[OF Cons.prems, of L corrID i "reqAddr sem i" x]
  obtain r h1 where it: "batchItem L h corrID i (reqAddr sem i) x = Returned (r, h1)"
    and w1: "wired h1" and c1: "DryRun h1 = DryRun h" "Topic h1 = Topic h" "SchemaMap h1 = SchemaMap h"
    by blast
  from Cons.IH[OF w1, of "Suc i" "hp(reqAddr sem i \<mapsto> x)" "acc @ [r]"]
  obtain h' hp' rs where run: "batchLoop sem L corrID (Suc i) xs (h1, hp(reqAddr sem i \<mapsto> x), acc @ [r])
        = Returned (h', hp', (acc @ [r]) @ rs)"
    and len: "length rs = length xs" and w': "wired h'"
    and c': "DryRun h' = DryRun h1" "Topic h' = Topic h1" "SchemaMap h' = SchemaMap h1"
    and items: "\<forall>k<length xs. \<exists>hk hk'. wired hk \<and> DryRun hk = DryRun h1 \<and> Topic hk = Topic h1 \<and>
               batchItem L hk corrID (Suc i + k) (reqAddr sem (Suc i + k)) (xs ! k) = Returned (rs ! k, hk')"
    by blast
  have "\<forall>k<length (x # xs). \<exists>hk hk'. wired hk \<and> DryRun hk = DryRun h \<and> Topic hk = Topic h \<and>
               batchItem L hk corrID (i + k) (reqAddr sem (i + k)) ((x # xs) ! k) = Returned ((r # rs) ! k, hk')"
  proof (intro allI impI)
    fix k assume k: "k < length (x # xs)"
    show "\<exists>hk hk'. wired hk \<and> DryRun hk = DryRun h \<and> Topic hk = Topic h \<and>
               batchItem L hk corrID (i + k) (reqAddr sem (i + k)) ((x # xs) ! k) = Returned ((r # rs) ! k, hk')"
    proof (cases k)
      case 0
      then show ?thesis using it Cons.prems by auto
    next
      case (Suc j)
      with k have "j < length xs" by simp
      with items obtain hk hk' where "wired hk" "DryRun hk = DryRun h1" "Topic hk = Topic h1"
        "batchItem L hk corrID (Suc i + j) (reqAddr sem (Suc i + j)) (xs ! j) = Returned (rs ! j, hk')"
        by blast
      then show ?thesis using Suc c1 by auto
    qed
  qed
  then show ?case using it run len w' c' c1
    by (intro exI[of _ h'] exI[of _ hp'] exI[of _ "r # rs"]) (simp add: Let_def)
qed

text \<open>
  The heap after the loop. With a variable for each iteration every request has a cell of
  its own; with one variable for the loop the only cell holds the last request.
\<close>

lemma batchLoop_heap_PerIteration:
  "batchLoop PerIteration L corrID i reqs (h, hp, acc) = Returned (h', hp', rs) \<Longrightarrow>
   hp' a = (if i \<le> a \<and> a < i + length reqs then Some (reqs ! (a - i)) else hp a)"
proof (induction reqs arbitrary: i h hp acc)
  case Nil
  then show ?case by auto
next
  case (Cons x xs)
  from Cons.prems obtain r h1 where
    it: "batchItem L h corrID i (reqAddr PerIteration i) x = Returned (r, h1)"
    and run: "batchLoop PerIteration L corrID (Suc i) xs (h1, hp(reqAddr PerIteration i \<mapsto> x), acc @ [r]) = Returned (h', hp', rs)"
    by (auto simp: Let_def split: exec.splits)
  from Cons.IH[OF run] show ?case
    by (auto simp: reqAddr_def nth_Cons' Suc_diff_le)
qed

lemma batchLoop_heap_PerLoop:
  "batchLoop PerLoop L corrID i reqs (h, hp, acc) = Returned (h', hp', rs) \<Longrightarrow>
   hp' = (if reqs = [] then hp else hp(0 \<mapsto> last reqs))"
proof (induction reqs arbitrary: i h hp acc)
  case Nil
  then show ?case by simp
next
  case (Cons x xs)
  from Cons.prems obtain r h1 where
    run: "batchLoop PerLoop L corrID (Suc i) xs (h1, hp(reqAddr PerLoop i \<mapsto> x), acc @ [r]) = Returned (h', hp', rs)"
    by (auto simp: Let_def split: exec.splits)
  from Cons.IH[OF run] show ?case
    by (auto simp: reqAddr_def)
qed

text \<open>
  With either loop variable, the pointer of every entry refers to one of the requests of
  the batch; so the encoder can write the response when every request serialises.
\<close>

lemma batch_echo_in_reqs:
  assumes "wired h"
    and run: "batchLoop sem L corrID 0 reqs (h, Map.empty, []) = Returned (h', hp', rs)"
  shows "\<forall>k<length reqs. \<exists>x\<in>set reqs. echoed hp' (Event_item (rs ! k)) = Some x"
proof (intro allI impI)
  fix k assume k: "k < length reqs"
  from batchLoop_run[OF assms(1), of sem L corrID 0 reqs Map.empty "[]"] run
  have items: "\<forall>k<length reqs. \<exists>hk hk'. wired hk \<and> DryRun hk = DryRun h \<and> Topic hk = Topic h \<and>
               batchItem L hk corrID k (reqAddr sem k) (reqs ! k) = Returned (rs ! k, hk')"
    by auto
  with k obtain hk hk' where hk: "wired hk"
    "batchItem L hk corrID k (reqAddr sem k) (reqs ! k) = Returned (rs ! k, hk')"
    by blast
  from batchItem_wired[OF hk(1), of L corrID k "reqAddr sem k" "reqs ! k"] hk(2)
  have ptr: "Event_item (rs ! k) = Some (reqAddr sem k)" by auto
  show "\<exists>x\<in>set reqs. echoed hp' (Event_item (rs ! k)) = Some x"
  proof (cases sem)
    case PerIteration
    with batchLoop_heap_PerIteration[of L corrID 0 reqs h Map.empty "[]" h' hp' rs k] run k
    have "hp' k = Some (reqs ! k)" by simp
    with ptr PerIteration k show ?thesis
      by (auto simp: echoed_def reqAddr_def)
  next
    case PerLoop
    from k have ne: "reqs \<noteq> []" by auto
    with batchLoop_heap_PerLoop[of L corrID 0 reqs h Map.empty "[]" h' hp' rs] run PerLoop
    have "hp' 0 = Some (last reqs)" by simp
    with ptr PerLoop ne show ?thesis
      by (auto simp: echoed_def reqAddr_def)
  qed
qed

lemma batch_encodes:
  assumes "wired h"
    and run: "batchLoop sem L corrID 0 reqs (h, Map.empty, []) = Returned (h', hp', rs)"
    and ser: "\<forall>x\<in>set reqs. \<exists>bs. jsonMarshal L x = Inr bs"
  shows "list_all (\<lambda>r. encodesEvent L hp' (Event_item r)) rs"
proof -
  from batchLoop_run[OF assms(1), of sem L corrID 0 reqs Map.empty "[]"] run
  have len: "length rs = length reqs" by auto
  have "\<forall>k<length rs. encodesEvent L hp' (Event_item (rs ! k))"
  proof (intro allI impI)
    fix k assume "k < length rs"
    with len batch_echo_in_reqs[OF assms(1) run]
    obtain x where "x \<in> set reqs" "echoed hp' (Event_item (rs ! k)) = Some x" by auto
    with ser show "encodesEvent L hp' (Event_item (rs ! k))"
      by (auto simp: encodesEvent_def)
  qed
  then show ?thesis by (simp add: list_all_length)
qed

subsection \<open>Dry-run mode\<close>

lemma batchItem_dry:
  "DryRun h \<Longrightarrow> \<exists>r. batchItem L h corrID i a req = Returned (r, h)"
  by (simp add: batchItem_def Let_def split: option.splits sum.splits)

lemma batchItem_dry_send:
  "DryRun h \<Longrightarrow> batchItem (L\<lparr>pulsarSend := s\<rparr>) h corrID i a req = batchItem L h corrID i a req"
  by (simp add: batchItem_def Let_def split: option.splits sum.splits)

lemma batchItem_dry_valid:
  "DryRun h \<Longrightarrow> validateEventSchema req = None \<Longrightarrow> jsonMarshal L req = Inr bs \<Longrightarrow>
   batchItem L h corrID i a req =
     Returned (\<lparr>Index = i, Status_item = ''dry-run'', Topic_item = resolveTopic h req,
                Bytes_item = length bs, MessageID_item = '''', Error_item = '''',
                CorrelationID_item = corrID, Event_item = Some a\<rparr>, h)"
  by (simp add: batchItem_def Let_def)

lemma batchLoop_dry:
  assumes "DryRun h"
  shows "\<exists>hp' rs. batchLoop sem L corrID i reqs (h, hp, acc) = Returned (h, hp', acc @ rs) \<and>
           length rs = length reqs \<and>
           (\<forall>k<length reqs.
              batchItem L h corrID (i + k) (reqAddr sem (i + k)) (reqs ! k) = Returned (rs ! k, h))"
proof (induction reqs arbitrary: i hp acc)
  case Nil
  then show ?case by simp
next
  case (Cons x xs)
  from batchItem_dry[OF assms, of L corrID i "reqAddr sem i" x]
  obtain r where it: "batchItem L h corrID i (reqAddr sem i) x = Returned (r, h)" by blast
  from Cons.IH[of "Suc i" "hp(reqAddr sem i \<mapsto> x)" "acc @ [r]"]
  obtain hp' rs where run: "batchLoop sem L corrID (Suc i) xs (h, hp(reqAddr sem i \<mapsto> x), acc @ [r])
        = Returned (h, hp', (acc @ [r]) @ rs)"
    and len: "length rs = length xs"
    and items: "\<forall>k<length xs.
       batchItem L h corrID (Suc i + k) (reqAddr sem (Suc i + k)) (xs ! k) = Returned (rs ! k, h)"
    by blast
  have "\<forall>k<length (x # xs).
       batchItem L h corrID (i + k) (reqAddr sem (i + k)) ((x # xs) ! k) = Returned ((r # rs) ! k, h)"
  proof (intro allI impI)
    fix k assume k: "k < length (x # xs)"
    show "batchItem L h corrID (i + k) (reqAddr sem (i + k)) ((x # xs) ! k) = Returned ((r # rs) ! k, h)"
    proof (cases k)
      case 0
      then show ?thesis using it by simp
    next
      case (Suc j)
      with k have "j < length xs" by simp
      with items Suc show ?thesis by simp
    qed
  qed
  then show ?case using it run len
    by (intro exI[of _ hp'] exI[of _ "r # rs"]) (simp add: Let_def)
qed

lemma batchLoop_dry_send:
  assumes "DryRun h"
  shows "batchLoop sem (L\<lparr>pulsarSend := s\<rparr>) corrID i reqs (h, hp, acc) =
         batchLoop sem L corrID i reqs (h, hp, acc)"
proof (induction reqs arbitrary: i hp acc)
  case Nil
  then show ?case by simp
next
  case (Cons x xs)
  from batchItem_dry[OF assms, of L corrID i "reqAddr sem i" x]
  obtain r where it: "batchItem L h corrID i (reqAddr sem i) x = Returned (r, h)" by blast
  have "batchLoop sem (L\<lparr>pulsarSend := s\<rparr>) corrID i (x # xs) (h, hp, acc) =
        batchLoop sem (L\<lparr>pulsarSend := s\<rparr>) corrID (Suc i) xs
          (h, hp(reqAddr sem i \<mapsto> x), acc @ [r])"
    by (simp add: Let_def batchItem_dry_send[OF assms] it)
  also have "\<dots> = batchLoop sem L corrID (Suc i) xs (h, hp(reqAddr sem i \<mapsto> x), acc @ [r])"
    by (rule Cons.IH)
  also have "\<dots> = batchLoop sem L corrID i (x # xs) (h, hp, acc)"
    by (simp add: Let_def it)
  finally show ?case .
qed

lemma PostEvent_dry:
  "DryRun h \<Longrightarrow> \<exists>w. PostEvent L h corrID bound = Returned (w, h)"
  by (simp add: PostEvent_def Let_def split: sum.splits option.splits)

lemma PostEvent_dry_send:
  "DryRun h \<Longrightarrow> PostEvent (L\<lparr>pulsarSend := s\<rparr>) h corrID bound = PostEvent L h corrID bound"
  by (simp add: PostEvent_def Let_def split: sum.splits option.splits)

lemma PostBatch_dry_send:
  "DryRun h \<Longrightarrow> PostBatch sem (L\<lparr>pulsarSend := s\<rparr>) h corrID bound = PostBatch sem L h corrID bound"
  by (simp add: PostBatch_def batchLoop_dry_send split: sum.splits)

subsection \<open>The outcome of one item\<close>

text \<open>
  The entry that the loop body returns, branch by branch: a validation failure, a
  serialisation failure, a dry run, a refused send and an accepted send.
\<close>

lemma batchItem_invalid:
  "validateEventSchema req = Some err \<Longrightarrow>
   batchItem L h corrID i a req =
     Returned (\<lparr>Index = i, Status_item = ''error'', Topic_item = '''', Bytes_item = 0,
                MessageID_item = '''', Error_item = ''schema validation failed: '' @ err,
                CorrelationID_item = corrID, Event_item = Some a\<rparr>, h)"
  by (simp add: batchItem_def Let_def)

lemma batchItem_unserialisable:
  "validateEventSchema req = None \<Longrightarrow> jsonMarshal L req = Inl e \<Longrightarrow>
   batchItem L h corrID i a req =
     Returned (\<lparr>Index = i, Status_item = ''error'', Topic_item = '''', Bytes_item = 0,
                MessageID_item = '''', Error_item = ''marshal error: '' @ e,
                CorrelationID_item = corrID, Event_item = Some a\<rparr>, h)"
  by (simp add: batchItem_def Let_def)

lemma batchItem_send_failed:
  "validateEventSchema req = None \<Longrightarrow> jsonMarshal L req = Inr bs \<Longrightarrow> \<not> DryRun h \<Longrightarrow>
   Producer h = Some conn \<Longrightarrow> pulsarSend L conn bs = (Inl e, conn') \<Longrightarrow>
   batchItem L h corrID i a req =
     Returned (\<lparr>Index = i, Status_item = ''error'', Topic_item = resolveTopic h req,
                Bytes_item = length bs, MessageID_item = '''',
                Error_item = ''send error: '' @ e,
                CorrelationID_item = corrID, Event_item = Some a\<rparr>, h\<lparr>Producer := Some conn'\<rparr>)"
  by (simp add: batchItem_def Let_def Send_def)

lemma batchItem_sent:
  "validateEventSchema req = None \<Longrightarrow> jsonMarshal L req = Inr bs \<Longrightarrow> \<not> DryRun h \<Longrightarrow>
   Producer h = Some conn \<Longrightarrow> pulsarSend L conn bs = (Inr msgID, conn') \<Longrightarrow>
   batchItem L h corrID i a req =
     Returned (\<lparr>Index = i, Status_item = ''sent'', Topic_item = resolveTopic h req,
                Bytes_item = length bs, MessageID_item = msgID, Error_item = '''',
                CorrelationID_item = corrID, Event_item = Some a\<rparr>, h\<lparr>Producer := Some conn'\<rparr>)"
  by (simp add: batchItem_def Let_def Send_def)

lemma batchItem_outcome:
  assumes "wired h"
  shows "\<exists>r h'. batchItem L h corrID i a y = Returned (r, h') \<and>
     (\<forall>err. validateEventSchema y = Some err \<longrightarrow>
        r = \<lparr>Index = i, Status_item = ''error'', Topic_item = '''', Bytes_item = 0,
             MessageID_item = '''', Error_item = ''schema validation failed: '' @ err,
             CorrelationID_item = corrID, Event_item = Some a\<rparr>) \<and>
     (validateEventSchema y = None \<longrightarrow>
        (\<forall>e. jsonMarshal L y = Inl e \<longrightarrow>
           r = \<lparr>Index = i, Status_item = ''error'', Topic_item = '''', Bytes_item = 0,
                MessageID_item = '''', Error_item = ''marshal error: '' @ e,
                CorrelationID_item = corrID, Event_item = Some a\<rparr>) \<and>
        (\<forall>bs. jsonMarshal L y = Inr bs \<longrightarrow>
           (DryRun h \<longrightarrow>
              r = \<lparr>Index = i, Status_item = ''dry-run'', Topic_item = resolveTopic h y,
                   Bytes_item = length bs, MessageID_item = '''', Error_item = '''',
                   CorrelationID_item = corrID, Event_item = Some a\<rparr>) \<and>
           (\<not> DryRun h \<longrightarrow>
              (\<exists>conn. Producer h = Some conn \<and>
                 (\<forall>e conn'. pulsarSend L conn bs = (Inl e, conn') \<longrightarrow>
                    r = \<lparr>Index = i, Status_item = ''error'', Topic_item = resolveTopic h y,
                         Bytes_item = length bs, MessageID_item = '''',
                         Error_item = ''send error: '' @ e,
                         CorrelationID_item = corrID, Event_item = Some a\<rparr>) \<and>
                 (\<forall>msgID conn'. pulsarSend L conn bs = (Inr msgID, conn') \<longrightarrow>
                    r = \<lparr>Index = i, Status_item = ''sent'', Topic_item = resolveTopic h y,
                         Bytes_item = length bs, MessageID_item = msgID, Error_item = '''',
                         CorrelationID_item = corrID, Event_item = Some a\<rparr>)))))"
proof -
  from batchItem_wired[OF assms, of L corrID i a y]
  obtain r h' where it: "batchItem L h corrID i a y = Returned (r, h')" by blast
  have inv: "\<forall>err. validateEventSchema y = Some err \<longrightarrow>
        r = \<lparr>Index = i, Status_item = ''error'', Topic_item = '''', Bytes_item = 0,
             MessageID_item = '''', Error_item = ''schema validation failed: '' @ err,
             CorrelationID_item = corrID, Event_item = Some a\<rparr>"
    using it batchItem_invalid[of y _ L h corrID i a] by auto
  have uns: "validateEventSchema y = None \<longrightarrow>
        (\<forall>e. jsonMarshal L y = Inl e \<longrightarrow>
           r = \<lparr>Index = i, Status_item = ''error'', Topic_item = '''', Bytes_item = 0,
                MessageID_item = '''', Error_item = ''marshal error: '' @ e,
                CorrelationID_item = corrID, Event_item = Some a\<rparr>)"
    using it batchItem_unserialisable[of y L _ h corrID i a] by auto
  have dry: "validateEventSchema y = None \<longrightarrow>
        (\<forall>bs. jsonMarshal L y = Inr bs \<longrightarrow> DryRun h \<longrightarrow>
              r = \<lparr>Index = i, Status_item = ''dry-run'', Topic_item = resolveTopic h y,
                   Bytes_item = length bs, MessageID_item = '''', Error_item = '''',
                   CorrelationID_item = corrID, Event_item = Some a\<rparr>)"
    using it batchItem_dry_valid[of h y L _ corrID i a] by auto
  have live: "validateEventSchema y = None \<longrightarrow>
        (\<forall>bs. jsonMarshal L y = Inr bs \<longrightarrow> \<not> DryRun h \<longrightarrow>
              (\<exists>conn. Producer h = Some conn \<and>
                 (\<forall>e conn'. pulsarSend L conn bs = (Inl e, conn') \<longrightarrow>
                    r = \<lparr>Index = i, Status_item = ''error'', Topic_item = resolveTopic h y,
                         Bytes_item = length bs, MessageID_item = '''',
                         Error_item = ''send error: '' @ e,
                         CorrelationID_item = corrID, Event_item = Some a\<rparr>) \<and>
                 (\<forall>msgID conn'. pulsarSend L conn bs = (Inr msgID, conn') \<longrightarrow>
                    r = \<lparr>Index = i, Status_item = ''sent'', Topic_item = resolveTopic h y,
                         Bytes_item = length bs, MessageID_item = msgID, Error_item = '''',
                         CorrelationID_item = corrID, Event_item = Some a\<rparr>)))"
  proof (intro impI allI)
    fix bs
    assume v: "validateEventSchema y = None" and m: "jsonMarshal L y = Inr bs"
      and d: "\<not> DryRun h"
    from assms d obtain conn where c: "Producer h = Some conn" by (auto simp: wired_def)
    show "\<exists>conn. Producer h = Some conn \<and>
                 (\<forall>e conn'. pulsarSend L conn bs = (Inl e, conn') \<longrightarrow>
                    r = \<lparr>Index = i, Status_item = ''error'', Topic_item = resolveTopic h y,
                         Bytes_item = length bs, MessageID_item = '''',
                         Error_item = ''send error: '' @ e,
                         CorrelationID_item = corrID, Event_item = Some a\<rparr>) \<and>
                 (\<forall>msgID conn'. pulsarSend L conn bs = (Inr msgID, conn') \<longrightarrow>
                    r = \<lparr>Index = i, Status_item = ''sent'', Topic_item = resolveTopic h y,
                         Bytes_item = length bs, MessageID_item = msgID, Error_item = '''',
                         CorrelationID_item = corrID, Event_item = Some a\<rparr>)"
      using it c batchItem_send_failed[OF v m d c, of _ _ corrID i a]
        batchItem_sent[OF v m d c, of _ _ corrID i a]
      by auto
  qed
  have both: "validateEventSchema y = None \<longrightarrow>
        (\<forall>e. jsonMarshal L y = Inl e \<longrightarrow>
           r = \<lparr>Index = i, Status_item = ''error'', Topic_item = '''', Bytes_item = 0,
                MessageID_item = '''', Error_item = ''marshal error: '' @ e,
                CorrelationID_item = corrID, Event_item = Some a\<rparr>) \<and>
        (\<forall>bs. jsonMarshal L y = Inr bs \<longrightarrow>
           (DryRun h \<longrightarrow>
              r = \<lparr>Index = i, Status_item = ''dry-run'', Topic_item = resolveTopic h y,
                   Bytes_item = length bs, MessageID_item = '''', Error_item = '''',
                   CorrelationID_item = corrID, Event_item = Some a\<rparr>) \<and>
           (\<not> DryRun h \<longrightarrow>
              (\<exists>conn. Producer h = Some conn \<and>
                 (\<forall>e conn'. pulsarSend L conn bs = (Inl e, conn') \<longrightarrow>
                    r = \<lparr>Index = i, Status_item = ''error'', Topic_item = resolveTopic h y,
                         Bytes_item = length bs, MessageID_item = '''',
                         Error_item = ''send error: '' @ e,
                         CorrelationID_item = corrID, Event_item = Some a\<rparr>) \<and>
                 (\<forall>msgID conn'. pulsarSend L conn bs = (Inr msgID, conn') \<longrightarrow>
                    r = \<lparr>Index = i, Status_item = ''sent'', Topic_item = resolveTopic h y,
                         Bytes_item = length bs, MessageID_item = msgID, Error_item = '''',
                         CorrelationID_item = corrID, Event_item = Some a\<rparr>))))"
  proof (rule impI, rule conjI)
    assume v: "validateEventSchema y = None"
    from uns v show "\<forall>e. jsonMarshal L y = Inl e \<longrightarrow>
           r = \<lparr>Index = i, Status_item = ''error'', Topic_item = '''', Bytes_item = 0,
                MessageID_item = '''', Error_item = ''marshal error: '' @ e,
                CorrelationID_item = corrID, Event_item = Some a\<rparr>"
      by (rule mp)
  next
    assume v: "validateEventSchema y = None"
    show "\<forall>bs. jsonMarshal L y = Inr bs \<longrightarrow>
           (DryRun h \<longrightarrow>
              r = \<lparr>Index = i, Status_item = ''dry-run'', Topic_item = resolveTopic h y,
                   Bytes_item = length bs, MessageID_item = '''', Error_item = '''',
                   CorrelationID_item = corrID, Event_item = Some a\<rparr>) \<and>
           (\<not> DryRun h \<longrightarrow>
              (\<exists>conn. Producer h = Some conn \<and>
                 (\<forall>e conn'. pulsarSend L conn bs = (Inl e, conn') \<longrightarrow>
                    r = \<lparr>Index = i, Status_item = ''error'', Topic_item = resolveTopic h y,
                         Bytes_item = length bs, MessageID_item = '''',
                         Error_item = ''send error: '' @ e,
                         CorrelationID_item = corrID, Event_item = Some a\<rparr>) \<and>
                 (\<forall>msgID conn'. pulsarSend L conn bs = (Inr msgID, conn') \<longrightarrow>
                    r = \<lparr>Index = i, Status_item = ''sent'', Topic_item = resolveTopic h y,
                         Bytes_item = length bs, MessageID_item = msgID, Error_item = '''',
                         CorrelationID_item = corrID, Event_item = Some a\<rparr>)))"
    proof (intro allI impI conjI)
      fix bs assume m: "jsonMarshal L y = Inr bs" and d: "DryRun h"
      from dry[rule_format, OF v m d]
      show "r = \<lparr>Index = i, Status_item = ''dry-run'', Topic_item = resolveTopic h y,
                   Bytes_item = length bs, MessageID_item = '''', Error_item = '''',
                   CorrelationID_item = corrID, Event_item = Some a\<rparr>" .
    next
      fix bs assume m: "jsonMarshal L y = Inr bs" and d: "\<not> DryRun h"
      from live[rule_format, OF v m d]
      show "\<exists>conn. Producer h = Some conn \<and>
                 (\<forall>e conn'. pulsarSend L conn bs = (Inl e, conn') \<longrightarrow>
                    r = \<lparr>Index = i, Status_item = ''error'', Topic_item = resolveTopic h y,
                         Bytes_item = length bs, MessageID_item = '''',
                         Error_item = ''send error: '' @ e,
                         CorrelationID_item = corrID, Event_item = Some a\<rparr>) \<and>
                 (\<forall>msgID conn'. pulsarSend L conn bs = (Inr msgID, conn') \<longrightarrow>
                    r = \<lparr>Index = i, Status_item = ''sent'', Topic_item = resolveTopic h y,
                         Bytes_item = length bs, MessageID_item = msgID, Error_item = '''',
                         CorrelationID_item = corrID, Event_item = Some a\<rparr>)" .
    qed
  qed
  show ?thesis
    apply (rule exI[of _ r])
    apply (rule exI[of _ h'])
    apply (rule conjI[OF it])
    apply (rule conjI[OF inv])
    apply (rule both)
    done
qed

lemma batchItem_status:
  assumes "wired h" and "batchItem L h corrID i a y = Returned (r, h')"
    and "validateEventSchema y = None" and "jsonMarshal L y = Inr bs"
  shows "(DryRun h \<and> Status_item r = ''dry-run'') \<or>
         (\<not> DryRun h \<and> Status_item r = ''sent'') \<or>
         (\<not> DryRun h \<and> Status_item r = ''error'' \<and> (\<exists>e. Error_item r = ''send error: '' @ e))"
proof (cases "DryRun h")
  case True
  with assms show ?thesis by (auto simp: batchItem_def Let_def)
next
  case False
  with assms(1) obtain conn where c: "Producer h = Some conn" by (auto simp: wired_def)
  obtain res conn' where s: "pulsarSend L conn bs = (res, conn')" by (cases "pulsarSend L conn bs")
  show ?thesis
  proof (cases res)
    case (Inl e)
    with batchItem_send_failed[OF assms(3,4) False c, of e conn' corrID i a] s assms(2) False
    show ?thesis by auto
  next
    case (Inr m)
    with batchItem_sent[OF assms(3,4) False c, of m conn' corrID i a] s assms(2) False
    show ?thesis by auto
  qed
qed

text \<open>
  A request that does not pass leaves the handler, and with it the broker connection, as
  it was; the handler after a request does not depend on the index, the address or the
  correlation identifier. So the handler after a list of requests is the handler after
  those of them that pass.
\<close>

lemma batchItem_not_passes:
  "\<not> passes L x \<Longrightarrow> \<exists>r. batchItem L h corrID i a x = Returned (r, h)"
  by (auto simp: passes_def batchItem_def Let_def split: option.splits sum.splits)

lemma batchItem_handler_indep:
  "batchItem L h corrID i a x = Returned (r, h1) \<Longrightarrow>
   \<exists>r'. batchItem L h corrID' j a' x = Returned (r', h1)"
  by (auto simp: batchItem_def Let_def split: option.splits sum.splits if_splits exec.splits prod.splits)

lemma batchLoop_filter:
  "batchLoop sem L corrID i xs (h, hp, acc) = Returned (h', hp', rs) \<Longrightarrow>
   \<exists>hp'' rs'. batchLoop sem L corrID j (filter (passes L) xs) (h, hp2, acc2) = Returned (h', hp'', rs')"
proof (induction xs arbitrary: i j h hp acc hp2 acc2)
  case Nil
  then show ?case by simp
next
  case (Cons x xs)
  from Cons.prems obtain r h1 where
    it: "batchItem L h corrID i (reqAddr sem i) x = Returned (r, h1)"
    and run: "batchLoop sem L corrID (Suc i) xs (h1, hp(reqAddr sem i \<mapsto> x), acc @ [r]) = Returned (h', hp', rs)"
    by (auto simp: Let_def split: exec.splits)
  show ?case
  proof (cases "passes L x")
    case True
    from batchItem_handler_indep[OF it, of corrID j "reqAddr sem j"]
    obtain r' where it': "batchItem L h corrID j (reqAddr sem j) x = Returned (r', h1)" ..
    from Cons.IH[OF run, of "Suc j" "hp2(reqAddr sem j \<mapsto> x)" "acc2 @ [r']"]
    obtain hp'' rs' where "batchLoop sem L corrID (Suc j) (filter (passes L) xs)
        (h1, hp2(reqAddr sem j \<mapsto> x), acc2 @ [r']) = Returned (h', hp'', rs')"
      by blast
    with True it' show ?thesis by (simp add: Let_def)
  next
    case False
    from batchItem_not_passes[OF False, of h corrID i "reqAddr sem i"] it
    have "h1 = h" by auto
    with Cons.IH[OF run, of j hp2 acc2] False show ?thesis by simp
  qed
qed

subsection \<open>The schema map\<close>

lemma resolveTopic_SchemaMap:
  "resolveTopic (h\<lparr>SchemaMap := m\<rparr>) req = resolveTopic h req"
  by (simp add: resolveTopic_def split: option.splits)

lemma batchItem_SchemaMap:
  "batchItem L (h\<lparr>SchemaMap := m\<rparr>) corrID i a req =
     map_exec (\<lambda>(r, h'). (r, h'\<lparr>SchemaMap := m\<rparr>)) (batchItem L h corrID i a req)"
  by (simp add: batchItem_def Let_def resolveTopic_SchemaMap
      split: option.splits sum.splits exec.splits prod.splits)

lemma batchLoop_SchemaMap:
  "batchLoop sem L corrID i reqs (h\<lparr>SchemaMap := m\<rparr>, hp, acc) =
     map_exec (\<lambda>(h', hp', rs). (h'\<lparr>SchemaMap := m\<rparr>, hp', rs))
       (batchLoop sem L corrID i reqs (h, hp, acc))"
proof (induction reqs arbitrary: i h hp acc)
  case Nil
  then show ?case by simp
next
  case (Cons x xs)
  show ?case
  proof (cases "batchItem L h corrID i (reqAddr sem i) x")
    case Panicked
    then show ?thesis by (simp add: Let_def batchItem_SchemaMap)
  next
    case (Returned res)
    obtain r h1 where res: "res = (r, h1)" by (cases res)
    have "batchLoop sem L corrID i (x # xs) (h\<lparr>SchemaMap := m\<rparr>, hp, acc) =
          batchLoop sem L corrID (Suc i) xs (h1\<lparr>SchemaMap := m\<rparr>, hp(reqAddr sem i \<mapsto> x), acc @ [r])"
      using Returned res by (simp add: Let_def batchItem_SchemaMap)
    also have "\<dots> = map_exec (\<lambda>(h', hp', rs). (h'\<lparr>SchemaMap := m\<rparr>, hp', rs))
       (batchLoop sem L corrID (Suc i) xs (h1, hp(reqAddr sem i \<mapsto> x), acc @ [r]))"
      by (rule Cons.IH)
    also have "\<dots> = map_exec (\<lambda>(h', hp', rs). (h'\<lparr>SchemaMap := m\<rparr>, hp', rs))
       (batchLoop sem L corrID i (x # xs) (h, hp, acc))"
      using Returned res by (simp add: Let_def)
    finally show ?thesis .
  qed
qed

lemma PostEvent_SchemaMap:
  "PostEvent L (h\<lparr>SchemaMap := m\<rparr>) corrID bound =
     map_exec (\<lambda>(w, h'). (w, h'\<lparr>SchemaMap := m\<rparr>)) (PostEvent L h corrID bound)"
  by (simp add: PostEvent_def Let_def resolveTopic_SchemaMap
      split: option.splits sum.splits exec.splits prod.splits)

lemma PostBatch_SchemaMap:
  "PostBatch sem L (h\<lparr>SchemaMap := m\<rparr>) corrID bound =
     map_exec (\<lambda>(w, h'). (w, h'\<lparr>SchemaMap := m\<rparr>)) (PostBatch sem L h corrID bound)"
  by (simp add: PostBatch_def batchLoop_SchemaMap split: sum.splits exec.splits prod.splits)

lemma NewEventHandler_SchemaMap:
  "NewEventHandler p topic dryRun m = (NewEventHandler p topic dryRun Map.empty)\<lparr>SchemaMap := m\<rparr>"
  by (simp add: NewEventHandler_def)

subsection \<open>The echoed event\<close>





section \<open>Schema validation\<close>

text \<open>
  C4. For type \<^verbatim>\<open>SIGNALITIEK_ERROR\<close> validation fails exactly when the payload lacks
  key \<^verbatim>\<open>errorCode\<close> or key \<^verbatim>\<open>employerId\<close>, and the message names the missing
  key (the first one checked, \<^verbatim>\<open>errorCode\<close>, when both are missing). For type
  \<^verbatim>\<open>WAGE_ERROR\<close> it fails exactly when the payload lacks key \<^verbatim>\<open>dossierId\<close>.
  Every other event type passes.
\<close>

theorem validateEventSchema_required_keys:
  "(EventType req = ''SIGNALITIEK_ERROR'' \<longrightarrow>
      (validateEventSchema req \<noteq> None \<longleftrightarrow>
         ''errorCode'' \<notin> dom (Payload req) \<or> ''employerId'' \<notin> dom (Payload req)) \<and>
      (''errorCode'' \<notin> dom (Payload req) \<longrightarrow>
         validateEventSchema req = Some ''payload.errorCode is required for SIGNALITIEK_ERROR'') \<and>
      (''errorCode'' \<in> dom (Payload req) \<and> ''employerId'' \<notin> dom (Payload req) \<longrightarrow>
         validateEventSchema req = Some ''payload.employerId is required for SIGNALITIEK_ERROR'')) \<and>
   (EventType req = ''WAGE_ERROR'' \<longrightarrow>
      (validateEventSchema req \<noteq> None \<longleftrightarrow> ''dossierId'' \<notin> dom (Payload req)) \<and>
      (''dossierId'' \<notin> dom (Payload req) \<longrightarrow>
         validateEventSchema req = Some ''payload.dossierId is required for WAGE_ERROR'')) \<and>
   (EventType req \<noteq> ''SIGNALITIEK_ERROR'' \<and> EventType req \<noteq> ''WAGE_ERROR'' \<longrightarrow>
      validateEventSchema req = None)"
  by (auto simp: validateEventSchema_def dom_def)

theorem validateEventSchema_required_keys_witness:
  "(EventType evSignalNoCode = ''SIGNALITIEK_ERROR'' \<and> ''errorCode'' \<notin> dom (Payload evSignalNoCode) \<and>
      validateEventSchema evSignalNoCode = Some ''payload.errorCode is required for SIGNALITIEK_ERROR'') \<and>
   (EventType evSignalNoEmployer = ''SIGNALITIEK_ERROR'' \<and> ''errorCode'' \<in> dom (Payload evSignalNoEmployer) \<and>
      ''employerId'' \<notin> dom (Payload evSignalNoEmployer) \<and>
      validateEventSchema evSignalNoEmployer = Some ''payload.employerId is required for SIGNALITIEK_ERROR'') \<and>
   (EventType evSignal = ''SIGNALITIEK_ERROR'' \<and> ''errorCode'' \<in> dom (Payload evSignal) \<and>
      ''employerId'' \<in> dom (Payload evSignal) \<and> validateEventSchema evSignal = None) \<and>
   (EventType evWageBad = ''WAGE_ERROR'' \<and> ''dossierId'' \<notin> dom (Payload evWageBad) \<and>
      validateEventSchema evWageBad = Some ''payload.dossierId is required for WAGE_ERROR'') \<and>
   (EventType evWage = ''WAGE_ERROR'' \<and> ''dossierId'' \<in> dom (Payload evWage) \<and>
      validateEventSchema evWage = None) \<and>
   (EventType evOther \<noteq> ''SIGNALITIEK_ERROR'' \<and> EventType evOther \<noteq> ''WAGE_ERROR'' \<and>
      validateEventSchema evOther = None)"
  using validateEventSchema_required_keys [of evSignalNoCode]
    validateEventSchema_required_keys [of evSignalNoEmployer]
    validateEventSchema_required_keys [of evSignal]
    validateEventSchema_required_keys [of evWageBad]
    validateEventSchema_required_keys [of evWage]
    validateEventSchema_required_keys [of evOther]
  by (simp add: evSignalNoCode_def evSignalNoEmployer_def evSignal_def evWageBad_def evWage_def
      evOther_def)

section \<open>Topic resolution\<close>

text \<open>
  C6. \<^verbatim>\<open>resolveTopic\<close> has no failing branch: for an event type in the routing table
  it returns the mapped topic, for every other type the handler's default topic. The
  table has exactly the two entries of the source.
\<close>

theorem resolveTopic_lookup_or_default:
  "(\<forall>t. eventTypeTopicMap (EventType req) = Some t \<longrightarrow> resolveTopic h req = t) \<and>
   (EventType req \<notin> dom eventTypeTopicMap \<longrightarrow> resolveTopic h req = Topic h) \<and>
   (EventType req = ''SIGNALITIEK_ERROR'' \<longrightarrow>
      resolveTopic h req = ''persistent://tenant/ns/signalitiek-errors'') \<and>
   (EventType req = ''WAGE_ERROR'' \<longrightarrow>
      resolveTopic h req = ''persistent://tenant/ns/wage-errors'') \<and>
   (EventType req \<noteq> ''SIGNALITIEK_ERROR'' \<and> EventType req \<noteq> ''WAGE_ERROR'' \<longrightarrow>
      resolveTopic h req = Topic h)"
  by (auto simp: resolveTopic_def eventTypeTopicMap_def dom_def)

theorem resolveTopic_lookup_or_default_witness:
  "(eventTypeTopicMap (EventType evSignal) = Some ''persistent://tenant/ns/signalitiek-errors'' \<and>
      resolveTopic liveHandler evSignal = ''persistent://tenant/ns/signalitiek-errors'') \<and>
   (EventType evWage = ''WAGE_ERROR'' \<and>
      resolveTopic liveHandler evWage = ''persistent://tenant/ns/wage-errors'') \<and>
   (EventType evOther \<notin> dom eventTypeTopicMap \<and>
      resolveTopic liveHandler evOther = ''persistent://tenant/ns/default-topic'')"
  using resolveTopic_lookup_or_default [of evSignal liveHandler]
    resolveTopic_lookup_or_default [of evWage liveHandler]
    resolveTopic_lookup_or_default [of evOther liveHandler]
  by (simp add: evSignal_def evWage_def evOther_def liveHandler_def NewEventHandler_def
      eventTypeTopicMap_def dom_def)

section \<open>Dry-run mode never sends\<close>

text \<open>
  C3. In dry-run mode an event that passes validation and serialisation gets status
  \<^verbatim>\<open>dry-run\<close>, the resolved topic, the length of its serialisation as byte size and
  an empty message identifier, as a single event (first conjunct) and as an item of a
  batch (fourth conjunct). The producer is never called: the handlers return the handler
  they were given, with its producer untouched, also when that producer is nil, and their
  result is the same whatever the broker's send function is.
\<close>

theorem dry_run_never_sends:
  assumes "DryRun h"
  shows "(validateEventSchema req = None \<and> jsonMarshal L req = Inr bs \<longrightarrow>
            PostEvent L h corrID (Inr req) =
              Returned (\<lparr>status_code = StatusOK,
                         json_body = EventBody
                           \<lparr>Status_resp = ''dry-run'', Topic_resp = resolveTopic h req,
                            Bytes_resp = length bs, DryRun_resp = True,
                            CorrelationID_resp = corrID, MessageID_resp = '''',
                            Event_resp = Some 0\<rparr>,
                         heap_written = [0 \<mapsto> req]\<rparr>, h)) \<and>
         (\<exists>w. PostEvent L h corrID bound = Returned (w, h)) \<and>
         PostEvent (L\<lparr>pulsarSend := s\<rparr>) h corrID bound = PostEvent L h corrID bound \<and>
         (\<exists>w b. PostBatch sem L h corrID (Inr reqs) = Returned (w, h) \<and>
            json_body w = BatchBody b \<and> length (Results b) = length reqs \<and>
            (\<forall>i<length reqs. \<forall>bs.
               validateEventSchema (reqs ! i) = None \<and> jsonMarshal L (reqs ! i) = Inr bs \<longrightarrow>
               Results b ! i =
                 \<lparr>Index = i, Status_item = ''dry-run'', Topic_item = resolveTopic h (reqs ! i),
                  Bytes_item = length bs, MessageID_item = '''', Error_item = '''',
                  CorrelationID_item = corrID, Event_item = Some (reqAddr sem i)\<rparr>)) \<and>
         PostBatch sem (L\<lparr>pulsarSend := s\<rparr>) h corrID batch = PostBatch sem L h corrID batch"
proof -
  have single: "validateEventSchema req = None \<and> jsonMarshal L req = Inr bs \<longrightarrow>
            PostEvent L h corrID (Inr req) =
              Returned (\<lparr>status_code = StatusOK,
                         json_body = EventBody
                           \<lparr>Status_resp = ''dry-run'', Topic_resp = resolveTopic h req,
                            Bytes_resp = length bs, DryRun_resp = True,
                            CorrelationID_resp = corrID, MessageID_resp = '''',
                            Event_resp = Some 0\<rparr>,
                         heap_written = [0 \<mapsto> req]\<rparr>, h)"
    using assms by (simp add: PostEvent_def Let_def)
  from batchLoop_dry[OF assms, of sem L corrID 0 reqs Map.empty "[]"]
  obtain hp' rs where run: "batchLoop sem L corrID 0 reqs (h, Map.empty, []) = Returned (h, hp', rs)"
    and len: "length rs = length reqs"
    and items: "\<forall>k<length reqs.
        batchItem L h corrID k (reqAddr sem k) (reqs ! k) = Returned (rs ! k, h)"
    by auto
  have entries: "\<forall>i<length reqs. \<forall>bs.
               validateEventSchema (reqs ! i) = None \<and> jsonMarshal L (reqs ! i) = Inr bs \<longrightarrow>
               rs ! i =
                 \<lparr>Index = i, Status_item = ''dry-run'', Topic_item = resolveTopic h (reqs ! i),
                  Bytes_item = length bs, MessageID_item = '''', Error_item = '''',
                  CorrelationID_item = corrID, Event_item = Some (reqAddr sem i)\<rparr>"
  proof (intro allI impI)
    fix i bs
    assume i: "i < length reqs"
      and ok: "validateEventSchema (reqs ! i) = None \<and> jsonMarshal L (reqs ! i) = Inr bs"
    from items i have "batchItem L h corrID i (reqAddr sem i) (reqs ! i) = Returned (rs ! i, h)"
      by blast
    with batchItem_dry_valid[OF assms, of "reqs ! i" L bs corrID i "reqAddr sem i"] ok
    show "rs ! i =
                 \<lparr>Index = i, Status_item = ''dry-run'', Topic_item = resolveTopic h (reqs ! i),
                  Bytes_item = length bs, MessageID_item = '''', Error_item = '''',
                  CorrelationID_item = corrID, Event_item = Some (reqAddr sem i)\<rparr>"
      by simp
  qed
  have batch: "\<exists>w b. PostBatch sem L h corrID (Inr reqs) = Returned (w, h) \<and>
            json_body w = BatchBody b \<and> length (Results b) = length reqs \<and>
            (\<forall>i<length reqs. \<forall>bs.
               validateEventSchema (reqs ! i) = None \<and> jsonMarshal L (reqs ! i) = Inr bs \<longrightarrow>
               Results b ! i =
                 \<lparr>Index = i, Status_item = ''dry-run'', Topic_item = resolveTopic h (reqs ! i),
                  Bytes_item = length bs, MessageID_item = '''', Error_item = '''',
                  CorrelationID_item = corrID, Event_item = Some (reqAddr sem i)\<rparr>)"
    using run len entries by (simp add: PostBatch_def)
  show ?thesis
    using single PostEvent_dry[OF assms] PostEvent_dry_send[OF assms] batch
      PostBatch_dry_send[OF assms]
    by blast
qed

theorem dry_run_never_sends_witness:
  "DryRun dryHandler \<and> validateEventSchema evSignal = None \<and>
   jsonMarshal demoLibs evSignal = Inr ''SIGNALITIEK_ERROR:EverESSt'' \<and>
   PostEvent demoLibs dryHandler ''c-1'' (Inr evSignal) =
     Returned (\<lparr>status_code = StatusOK,
                json_body = EventBody
                  \<lparr>Status_resp = ''dry-run'', Topic_resp = resolveTopic dryHandler evSignal,
                   Bytes_resp = length ''SIGNALITIEK_ERROR:EverESSt'', DryRun_resp = True,
                   CorrelationID_resp = ''c-1'', MessageID_resp = '''', Event_resp = Some 0\<rparr>,
                heap_written = [0 \<mapsto> evSignal]\<rparr>, dryHandler) \<and>
   (\<exists>w b. PostBatch PerIteration demoLibs dryHandler ''c-1'' (Inr [evWageBad, evSignal]) =
        Returned (w, dryHandler) \<and>
      json_body w = BatchBody b \<and>
      Results b ! 1 =
        \<lparr>Index = 1, Status_item = ''dry-run'', Topic_item = resolveTopic dryHandler evSignal,
         Bytes_item = length ''SIGNALITIEK_ERROR:EverESSt'', MessageID_item = '''',
         Error_item = '''', CorrelationID_item = ''c-1'',
         Event_item = Some (reqAddr PerIteration 1)\<rparr>)"
proof -
  have d: "DryRun dryHandler"
    by (simp add: dryHandler_def NewEventHandler_def)
  have v: "validateEventSchema evSignal = None"
    by (simp add: validateEventSchema_def evSignal_def)
  have m: "jsonMarshal demoLibs evSignal = Inr ''SIGNALITIEK_ERROR:EverESSt''"
    by (simp add: demoLibs_def evSignal_def)
  note t = dry_run_never_sends[OF d, of evSignal demoLibs "''SIGNALITIEK_ERROR:EverESSt''" "''c-1''"
      "Inr evSignal" "pulsarSend demoLibs" PerIteration "[evWageBad, evSignal]"
      "Inr [evWageBad, evSignal]"]
  from t v m have single: "PostEvent demoLibs dryHandler ''c-1'' (Inr evSignal) =
     Returned (\<lparr>status_code = StatusOK,
                json_body = EventBody
                  \<lparr>Status_resp = ''dry-run'', Topic_resp = resolveTopic dryHandler evSignal,
                   Bytes_resp = length ''SIGNALITIEK_ERROR:EverESSt'', DryRun_resp = True,
                   CorrelationID_resp = ''c-1'', MessageID_resp = '''', Event_resp = Some 0\<rparr>,
                heap_written = [0 \<mapsto> evSignal]\<rparr>, dryHandler)"
    by blast
  from t obtain w b where
    run: "PostBatch PerIteration demoLibs dryHandler ''c-1'' (Inr [evWageBad, evSignal]) =
        Returned (w, dryHandler)" "json_body w = BatchBody b"
    and entries: "\<forall>i<length [evWageBad, evSignal]. \<forall>bs.
               validateEventSchema ([evWageBad, evSignal] ! i) = None \<and>
               jsonMarshal demoLibs ([evWageBad, evSignal] ! i) = Inr bs \<longrightarrow>
               Results b ! i =
                 \<lparr>Index = i, Status_item = ''dry-run'',
                  Topic_item = resolveTopic dryHandler ([evWageBad, evSignal] ! i),
                  Bytes_item = length bs, MessageID_item = '''', Error_item = '''',
                  CorrelationID_item = ''c-1'', Event_item = Some (reqAddr PerIteration i)\<rparr>"
    by blast
  from entries[rule_format, of 1 "''SIGNALITIEK_ERROR:EverESSt''"] v m
  have "Results b ! 1 =
        \<lparr>Index = 1, Status_item = ''dry-run'', Topic_item = resolveTopic dryHandler evSignal,
         Bytes_item = length ''SIGNALITIEK_ERROR:EverESSt'', MessageID_item = '''',
         Error_item = '''', CorrelationID_item = ''c-1'',
         Event_item = Some (reqAddr PerIteration 1)\<rparr>"
    by simp
  with run single d v m show ?thesis by blast
qed

section \<open>The batch handler\<close>

text \<open>
  C1, as stated, fails in its last part: the outcome of an item is not independent of an
  earlier send failure. With a broker whose connection closes when it refuses a message,
  the same request at the same index is sent after an accepted message and refused after
  a refused one.
\<close>

theorem later_outcome_depends_on_broker_state:
  "Status_item (batchResults (PostBatch PerIteration closingLibs closingHandler ''c-1''
      (Inr [evWage, evWage])) ! 1) = ''sent'' \<and>
   Status_item (batchResults (PostBatch PerIteration closingLibs closingHandler ''c-1''
      (Inr [evSignal, evWage])) ! 1) = ''error'' \<and>
   Error_item (batchResults (PostBatch PerIteration closingLibs closingHandler ''c-1''
      (Inr [evSignal, evWage])) ! 1) = ''send error: producer closed''"
  by (simp add: batchResults_def PostBatch_def batchItem_def validateEventSchema_def Send_def
      resolveTopic_def eventTypeTopicMap_def reqAddr_def Let_def closingLibs_def
      closingHandler_def evWage_def evSignal_def NewEventHandler_def)

text \<open>
  C1, amended. A failure of one item (validation, serialisation or send) never stops the
  batch. Split the batch at any item \<open>y\<close>: whatever happened to the items \<open>xs\<close> before
  it, the batch returns, its results begin with the results of \<open>xs\<close> alone, the next
  entry is that of \<open>y\<close>, and one entry for each later item follows. The entry of
  \<open>y\<close> is the outcome of validating it, serialising it and, on a live handler, sending
  its bytes on the broker connection that the items before it left behind: an error entry
  with the validator's message, an error entry with the serialiser's message, a dry-run
  entry, an error entry with the broker's message, or a sent entry with the broker's
  message identifier. It is independent of earlier validation and serialisation failures:
  the handler that \<open>y\<close> meets is the one left by the earlier items that pass, the failed
  ones removed. On earlier sends it depends only through that broker connection.
\<close>

theorem batch_later_items_processed:
  assumes "wired h"
  shows "\<exists>wx hx bx wf r w h' b rest.
     PostBatch sem L h corrID (Inr xs) = Returned (wx, hx) \<and> json_body wx = BatchBody bx \<and>
     length (Results bx) = length xs \<and>
     PostBatch sem L h corrID (Inr (filter (passes L) xs)) = Returned (wf, hx) \<and>
     PostBatch sem L h corrID (Inr (xs @ y # ys)) = Returned (w, h') \<and>
     json_body w = BatchBody b \<and>
     Results b = Results bx @ r # rest \<and> length rest = length ys \<and>
     DryRun hx = DryRun h \<and> Topic hx = Topic h \<and>
     (\<forall>err. validateEventSchema y = Some err \<longrightarrow>
        r = \<lparr>Index = length xs, Status_item = ''error'', Topic_item = '''', Bytes_item = 0,
             MessageID_item = '''', Error_item = ''schema validation failed: '' @ err,
             CorrelationID_item = corrID, Event_item = Some (reqAddr sem (length xs))\<rparr>) \<and>
     (validateEventSchema y = None \<longrightarrow>
        (\<forall>e. jsonMarshal L y = Inl e \<longrightarrow>
           r = \<lparr>Index = length xs, Status_item = ''error'', Topic_item = '''', Bytes_item = 0,
                MessageID_item = '''', Error_item = ''marshal error: '' @ e,
                CorrelationID_item = corrID, Event_item = Some (reqAddr sem (length xs))\<rparr>) \<and>
        (\<forall>bs. jsonMarshal L y = Inr bs \<longrightarrow>
           (DryRun h \<longrightarrow>
              r = \<lparr>Index = length xs, Status_item = ''dry-run'', Topic_item = resolveTopic h y,
                   Bytes_item = length bs, MessageID_item = '''', Error_item = '''',
                   CorrelationID_item = corrID,
                   Event_item = Some (reqAddr sem (length xs))\<rparr>) \<and>
           (\<not> DryRun h \<longrightarrow>
              (\<exists>conn. Producer hx = Some conn \<and>
                 (\<forall>e conn'. pulsarSend L conn bs = (Inl e, conn') \<longrightarrow>
                    r = \<lparr>Index = length xs, Status_item = ''error'',
                         Topic_item = resolveTopic h y, Bytes_item = length bs,
                         MessageID_item = '''', Error_item = ''send error: '' @ e,
                         CorrelationID_item = corrID,
                         Event_item = Some (reqAddr sem (length xs))\<rparr>) \<and>
                 (\<forall>msgID conn'. pulsarSend L conn bs = (Inr msgID, conn') \<longrightarrow>
                    r = \<lparr>Index = length xs, Status_item = ''sent'',
                         Topic_item = resolveTopic h y, Bytes_item = length bs,
                         MessageID_item = msgID, Error_item = '''',
                         CorrelationID_item = corrID,
                         Event_item = Some (reqAddr sem (length xs))\<rparr>)))))"
proof -
  from batchLoop_run[OF assms, of sem L corrID 0 xs Map.empty "[]"]
  obtain hx hpx rsx where runx: "batchLoop sem L corrID 0 xs (h, Map.empty, []) = Returned (hx, hpx, rsx)"
    and lenx: "length rsx = length xs"
    and wx: "wired hx" and cx: "DryRun hx = DryRun h" "Topic hx = Topic h"
    by auto
  from batchLoop_filter[OF runx, of 0 Map.empty "[]"]
  obtain hpf rsf where runf: "batchLoop sem L corrID 0 (filter (passes L) xs) (h, Map.empty, [])
      = Returned (hx, hpf, rsf)"
    by blast
  from batchItem_outcome[OF wx, of L corrID "length xs" "reqAddr sem (length xs)" y]
  obtain r hy where it: "batchItem L hx corrID (length xs) (reqAddr sem (length xs)) y = Returned (r, hy)"
    and out1: "\<forall>err. validateEventSchema y = Some err \<longrightarrow>
        r = \<lparr>Index = length xs, Status_item = ''error'', Topic_item = '''', Bytes_item = 0,
             MessageID_item = '''', Error_item = ''schema validation failed: '' @ err,
             CorrelationID_item = corrID, Event_item = Some (reqAddr sem (length xs))\<rparr>"
    and out2: "validateEventSchema y = None \<longrightarrow>
        (\<forall>e. jsonMarshal L y = Inl e \<longrightarrow>
           r = \<lparr>Index = length xs, Status_item = ''error'', Topic_item = '''', Bytes_item = 0,
                MessageID_item = '''', Error_item = ''marshal error: '' @ e,
                CorrelationID_item = corrID, Event_item = Some (reqAddr sem (length xs))\<rparr>) \<and>
        (\<forall>bs. jsonMarshal L y = Inr bs \<longrightarrow>
           (DryRun hx \<longrightarrow>
              r = \<lparr>Index = length xs, Status_item = ''dry-run'', Topic_item = resolveTopic hx y,
                   Bytes_item = length bs, MessageID_item = '''', Error_item = '''',
                   CorrelationID_item = corrID,
                   Event_item = Some (reqAddr sem (length xs))\<rparr>) \<and>
           (\<not> DryRun hx \<longrightarrow>
              (\<exists>conn. Producer hx = Some conn \<and>
                 (\<forall>e conn'. pulsarSend L conn bs = (Inl e, conn') \<longrightarrow>
                    r = \<lparr>Index = length xs, Status_item = ''error'',
                         Topic_item = resolveTopic hx y, Bytes_item = length bs,
                         MessageID_item = '''', Error_item = ''send error: '' @ e,
                         CorrelationID_item = corrID,
                         Event_item = Some (reqAddr sem (length xs))\<rparr>) \<and>
                 (\<forall>msgID conn'. pulsarSend L conn bs = (Inr msgID, conn') \<longrightarrow>
                    r = \<lparr>Index = length xs, Status_item = ''sent'',
                         Topic_item = resolveTopic hx y, Bytes_item = length bs,
                         MessageID_item = msgID, Error_item = '''',
                         CorrelationID_item = corrID,
                         Event_item = Some (reqAddr sem (length xs))\<rparr>))))"
    by (elim exE conjE) (rule that)
  have wy: "wired hy"
    using batchItem_wired[OF wx, of L corrID "length xs" "reqAddr sem (length xs)" y] it by auto
  have topic: "resolveTopic hx y = resolveTopic h y"
    using cx by (simp add: resolveTopic_def split: option.splits)
  from batchLoop_run[OF wy, of sem L corrID "Suc (length xs)" ys
      "hpx(reqAddr sem (length xs) \<mapsto> y)" "rsx @ [r]"]
  obtain h' hp' rest where runy: "batchLoop sem L corrID (Suc (length xs)) ys
        (hy, hpx(reqAddr sem (length xs) \<mapsto> y), rsx @ [r]) = Returned (h', hp', (rsx @ [r]) @ rest)"
    and len: "length rest = length ys"
    by blast
  have full: "batchLoop sem L corrID 0 (xs @ y # ys) (h, Map.empty, []) =
      Returned (h', hp', rsx @ r # rest)"
    using runx it runy by (simp add: batchLoop_append Let_def)
  let ?st = "if DryRun h then ''dry-run'' else ''sent''"
  let ?bx = "\<lparr>Status_batch = ?st, Count = length rsx, DryRun_batch = DryRun h, Results = rsx\<rparr>"
  let ?b = "\<lparr>Status_batch = ?st, Count = length (rsx @ r # rest), DryRun_batch = DryRun h,
              Results = rsx @ r # rest\<rparr>"
  let ?wx = "\<lparr>status_code = StatusOK, json_body = BatchBody ?bx, heap_written = hpx\<rparr>"
  let ?wf = "\<lparr>status_code = StatusOK,
               json_body = BatchBody \<lparr>Status_batch = ?st, Count = length rsf,
                                      DryRun_batch = DryRun h, Results = rsf\<rparr>,
               heap_written = hpf\<rparr>"
  let ?w = "\<lparr>status_code = StatusOK, json_body = BatchBody ?b, heap_written = hp'\<rparr>"
  have px: "PostBatch sem L h corrID (Inr xs) = Returned (?wx, hx)"
    using runx by (simp add: PostBatch_def)
  have pf: "PostBatch sem L h corrID (Inr (filter (passes L) xs)) = Returned (?wf, hx)"
    using runf by (simp add: PostBatch_def)
  have pw: "PostBatch sem L h corrID (Inr (xs @ y # ys)) = Returned (?w, h')"
    using full by (simp add: PostBatch_def)
  have o2: "validateEventSchema y = None \<longrightarrow>
        (\<forall>e. jsonMarshal L y = Inl e \<longrightarrow>
           r = \<lparr>Index = length xs, Status_item = ''error'', Topic_item = '''', Bytes_item = 0,
                MessageID_item = '''', Error_item = ''marshal error: '' @ e,
                CorrelationID_item = corrID, Event_item = Some (reqAddr sem (length xs))\<rparr>) \<and>
        (\<forall>bs. jsonMarshal L y = Inr bs \<longrightarrow>
           (DryRun h \<longrightarrow>
              r = \<lparr>Index = length xs, Status_item = ''dry-run'', Topic_item = resolveTopic h y,
                   Bytes_item = length bs, MessageID_item = '''', Error_item = '''',
                   CorrelationID_item = corrID,
                   Event_item = Some (reqAddr sem (length xs))\<rparr>) \<and>
           (\<not> DryRun h \<longrightarrow>
              (\<exists>conn. Producer hx = Some conn \<and>
                 (\<forall>e conn'. pulsarSend L conn bs = (Inl e, conn') \<longrightarrow>
                    r = \<lparr>Index = length xs, Status_item = ''error'',
                         Topic_item = resolveTopic h y, Bytes_item = length bs,
                         MessageID_item = '''', Error_item = ''send error: '' @ e,
                         CorrelationID_item = corrID,
                         Event_item = Some (reqAddr sem (length xs))\<rparr>) \<and>
                 (\<forall>msgID conn'. pulsarSend L conn bs = (Inr msgID, conn') \<longrightarrow>
                    r = \<lparr>Index = length xs, Status_item = ''sent'',
                         Topic_item = resolveTopic h y, Bytes_item = length bs,
                         MessageID_item = msgID, Error_item = '''',
                         CorrelationID_item = corrID,
                         Event_item = Some (reqAddr sem (length xs))\<rparr>))))"
    using out2 by (simp only: cx topic)
  show ?thesis
    apply (rule exI[of _ ?wx])
    apply (rule exI[of _ hx])
    apply (rule exI[of _ ?bx])
    apply (rule exI[of _ ?wf])
    apply (rule exI[of _ r])
    apply (rule exI[of _ ?w])
    apply (rule exI[of _ h'])
    apply (rule exI[of _ ?b])
    apply (rule exI[of _ rest])
    apply (intro conjI)
    subgoal by (rule px)
    subgoal by simp
    subgoal by (simp add: lenx)
    subgoal by (rule pf)
    subgoal by (rule pw)
    subgoal by simp
    subgoal by simp
    subgoal by (rule len)
    subgoal by (rule cx(1))
    subgoal by (rule cx(2))
    subgoal by (rule out1)
    subgoal by (rule o2)
    done
qed

theorem batch_later_items_processed_witness:
  "wired liveHandler \<and>
   (\<exists>w h' b. PostBatch PerIteration demoLibs liveHandler ''c-1''
        (Inr ([evWageBad, evSignal] @ evWage # [evOther])) = Returned (w, h') \<and>
      json_body w = BatchBody b \<and> length (Results b) = 4 \<and>
      Results b ! 2 =
        \<lparr>Index = 2, Status_item = ''sent'', Topic_item = ''persistent://tenant/ns/wage-errors'',
         Bytes_item = 19, MessageID_item = ''1:0:0'', Error_item = '''',
         CorrelationID_item = ''c-1'', Event_item = Some 2\<rparr>)"
proof -
  from batch_later_items_processed[OF wired_liveHandler, of PerIteration demoLibs "''c-1''"
      "[evWageBad, evSignal]" evWage "[evOther]"]
  obtain wx hx bx wf r w h' b rest where
    "PostBatch PerIteration demoLibs liveHandler ''c-1'' (Inr [evWageBad, evSignal]) =
       Returned (wx, hx)"
    "json_body wx = BatchBody bx"
    and lenx: "length (Results bx) = length [evWageBad, evSignal]"
    and "PostBatch PerIteration demoLibs liveHandler ''c-1''
       (Inr (filter (passes demoLibs) [evWageBad, evSignal])) = Returned (wf, hx)"
    and run: "PostBatch PerIteration demoLibs liveHandler ''c-1''
        (Inr ([evWageBad, evSignal] @ evWage # [evOther])) = Returned (w, h')"
      "json_body w = BatchBody b"
    and res: "Results b = Results bx @ r # rest"
    and len: "length rest = length [evOther]"
    and "DryRun hx = DryRun liveHandler" "Topic hx = Topic liveHandler"
    and "\<forall>err. validateEventSchema evWage = Some err \<longrightarrow>
        r = \<lparr>Index = length [evWageBad, evSignal], Status_item = ''error'', Topic_item = '''',
             Bytes_item = 0, MessageID_item = '''',
             Error_item = ''schema validation failed: '' @ err,
             CorrelationID_item = ''c-1'',
             Event_item = Some (reqAddr PerIteration (length [evWageBad, evSignal]))\<rparr>"
    and out: "validateEventSchema evWage = None \<longrightarrow>
        (\<forall>e. jsonMarshal demoLibs evWage = Inl e \<longrightarrow>
           r = \<lparr>Index = length [evWageBad, evSignal], Status_item = ''error'',
                Topic_item = '''', Bytes_item = 0,
                MessageID_item = '''', Error_item = ''marshal error: '' @ e,
                CorrelationID_item = ''c-1'',
                Event_item = Some (reqAddr PerIteration (length [evWageBad, evSignal]))\<rparr>) \<and>
        (\<forall>bs. jsonMarshal demoLibs evWage = Inr bs \<longrightarrow>
           (DryRun liveHandler \<longrightarrow>
              r = \<lparr>Index = length [evWageBad, evSignal], Status_item = ''dry-run'',
                   Topic_item = resolveTopic liveHandler evWage,
                   Bytes_item = length bs, MessageID_item = '''', Error_item = '''',
                   CorrelationID_item = ''c-1'',
                   Event_item = Some (reqAddr PerIteration (length [evWageBad, evSignal]))\<rparr>) \<and>
           (\<not> DryRun liveHandler \<longrightarrow>
              (\<exists>conn. Producer hx = Some conn \<and>
                 (\<forall>e conn'. pulsarSend demoLibs conn bs = (Inl e, conn') \<longrightarrow>
                    r = \<lparr>Index = length [evWageBad, evSignal], Status_item = ''error'',
                         Topic_item = resolveTopic liveHandler evWage, Bytes_item = length bs,
                         MessageID_item = '''', Error_item = ''send error: '' @ e,
                         CorrelationID_item = ''c-1'',
                         Event_item = Some (reqAddr PerIteration (length [evWageBad, evSignal]))\<rparr>) \<and>
                 (\<forall>msgID conn'. pulsarSend demoLibs conn bs = (Inr msgID, conn') \<longrightarrow>
                    r = \<lparr>Index = length [evWageBad, evSignal], Status_item = ''sent'',
                         Topic_item = resolveTopic liveHandler evWage, Bytes_item = length bs,
                         MessageID_item = msgID, Error_item = '''',
                         CorrelationID_item = ''c-1'',
                         Event_item = Some (reqAddr PerIteration (length [evWageBad, evSignal]))\<rparr>))))"
    by (elim exE conjE) (rule that)
  have v: "validateEventSchema evWage = None"
    by (simp add: validateEventSchema_def evWage_def)
  have m: "jsonMarshal demoLibs evWage = Inr ''WAGE_ERROR:EverESSt''"
    by (simp add: demoLibs_def evWage_def)
  have d: "\<not> DryRun liveHandler"
    by (simp add: liveHandler_def NewEventHandler_def)
  from out v m d obtain conn where
    sent: "\<forall>msgID conn'. pulsarSend demoLibs conn ''WAGE_ERROR:EverESSt'' = (Inr msgID, conn') \<longrightarrow>
       r = \<lparr>Index = length [evWageBad, evSignal], Status_item = ''sent'',
            Topic_item = resolveTopic liveHandler evWage,
            Bytes_item = length ''WAGE_ERROR:EverESSt'',
            MessageID_item = msgID, Error_item = '''',
            CorrelationID_item = ''c-1'',
            Event_item = Some (reqAddr PerIteration (length [evWageBad, evSignal]))\<rparr>"
    by blast
  have s: "pulsarSend demoLibs conn ''WAGE_ERROR:EverESSt'' =
      (Inr ''1:0:0'', conn @ [''WAGE_ERROR:EverESSt''])"
    by (simp add: demoLibs_def)
  from sent[rule_format, OF s]
  have r: "r = \<lparr>Index = 2, Status_item = ''sent'',
         Topic_item = ''persistent://tenant/ns/wage-errors'',
         Bytes_item = 19, MessageID_item = ''1:0:0'', Error_item = '''',
         CorrelationID_item = ''c-1'', Event_item = Some 2\<rparr>"
    by (simp add: resolveTopic_def eventTypeTopicMap_def evWage_def reqAddr_def)
  from res lenx len have "length (Results b) = 4" by simp
  moreover from res lenx have "Results b ! 2 = r" by (simp add: nth_append)
  ultimately show ?thesis using run r wired_liveHandler by blast
qed

text \<open>
  C2. For a list of N events the batch response has N entries and reports count N; the
  entry at position \<open>i\<close> carries index \<open>i\<close> and is the loop body's result for the
  \<open>i\<close>-th event.
\<close>

theorem batch_one_entry_per_event:
  assumes "wired h"
  shows "\<exists>w h' b. PostBatch sem L h corrID (Inr reqs) = Returned (w, h') \<and>
           json_body w = BatchBody b \<and>
           length (Results b) = length reqs \<and> Count b = length reqs \<and>
           (\<forall>i<length reqs. Index (Results b ! i) = i \<and>
              (\<exists>hi hi'. DryRun hi = DryRun h \<and> Topic hi = Topic h \<and>
                 batchItem L hi corrID i (reqAddr sem i) (reqs ! i) = Returned (Results b ! i, hi')))"
proof -
  from batchLoop_run[OF assms, of sem L corrID 0 reqs Map.empty "[]"]
  obtain h' hp' rs where run: "batchLoop sem L corrID 0 reqs (h, Map.empty, []) = Returned (h', hp', rs)"
    and len: "length rs = length reqs"
    and items: "\<forall>k<length reqs. \<exists>hk hk'. wired hk \<and> DryRun hk = DryRun h \<and> Topic hk = Topic h \<and>
               batchItem L hk corrID k (reqAddr sem k) (reqs ! k) = Returned (rs ! k, hk')"
    by auto
  have entries: "\<forall>i<length reqs. Index (rs ! i) = i \<and>
              (\<exists>hi hi'. DryRun hi = DryRun h \<and> Topic hi = Topic h \<and>
                 batchItem L hi corrID i (reqAddr sem i) (reqs ! i) = Returned (rs ! i, hi'))"
  proof (intro allI impI)
    fix i assume "i < length reqs"
    with items obtain hk hk' where k: "wired hk" "DryRun hk = DryRun h" "Topic hk = Topic h"
      "batchItem L hk corrID i (reqAddr sem i) (reqs ! i) = Returned (rs ! i, hk')"
      by blast
    from batchItem_wired[OF k(1), of L corrID i "reqAddr sem i" "reqs ! i"] k(4)
    have "Index (rs ! i) = i" by auto
    with k show "Index (rs ! i) = i \<and>
              (\<exists>hi hi'. DryRun hi = DryRun h \<and> Topic hi = Topic h \<and>
                 batchItem L hi corrID i (reqAddr sem i) (reqs ! i) = Returned (rs ! i, hi'))"
      by blast
  qed
  show ?thesis using run len entries by (simp add: PostBatch_def)
qed

theorem batch_one_entry_per_event_witness:
  "wired liveHandler \<and>
   (\<exists>w h' b. PostBatch PerIteration demoLibs liveHandler ''c-1''
        (Inr [evWageBad, evSignal, evWage]) = Returned (w, h') \<and>
      json_body w = BatchBody b \<and>
      length (Results b) = length [evWageBad, evSignal, evWage] \<and>
      Count b = length [evWageBad, evSignal, evWage] \<and>
      (\<forall>i<length [evWageBad, evSignal, evWage]. Index (Results b ! i) = i \<and>
         (\<exists>hi hi'. DryRun hi = DryRun liveHandler \<and> Topic hi = Topic liveHandler \<and>
            batchItem demoLibs hi ''c-1'' i (reqAddr PerIteration i)
              ([evWageBad, evSignal, evWage] ! i) = Returned (Results b ! i, hi'))))"
  using wired_liveHandler
    batch_one_entry_per_event[OF wired_liveHandler, of PerIteration demoLibs "''c-1''"
      "[evWageBad, evSignal, evWage]"]
  by (rule conjI)

text \<open>
  C5. The top-level status of a batch response is \<^verbatim>\<open>dry-run\<close> in dry-run mode and
  \<^verbatim>\<open>sent\<close> otherwise, whatever the items' outcomes are. In the example every item
  fails (validation, serialisation, send) and the status is still \<^verbatim>\<open>sent\<close>.
\<close>

theorem batch_status_ignores_item_failures:
  assumes "wired h"
  shows "\<exists>w h' b. PostBatch sem L h corrID (Inr reqs) = Returned (w, h') \<and>
           json_body w = BatchBody b \<and>
           Status_batch b = (if DryRun h then ''dry-run'' else ''sent'') \<and>
           DryRun_batch b = DryRun h"
proof -
  from batchLoop_run[OF assms, of sem L corrID 0 reqs Map.empty "[]"]
  obtain h' hp' rs where "batchLoop sem L corrID 0 reqs (h, Map.empty, []) = Returned (h', hp', rs)"
    by auto
  then show ?thesis by (simp add: PostBatch_def)
qed

theorem batch_status_ignores_item_failures_witness:
  "wired liveHandler \<and>
   (\<exists>w h' b. PostBatch PerIteration demoLibs liveHandler ''c-1''
        (Inr [evWageBad, evNaN, evSignal]) = Returned (w, h') \<and>
      json_body w = BatchBody b \<and> Status_batch b = ''sent'' \<and> DryRun_batch b = False \<and>
      map Status_item (Results b) = [''error'', ''error'', ''error''])"
proof -
  from batch_status_ignores_item_failures[OF wired_liveHandler, of PerIteration demoLibs "''c-1''"
      "[evWageBad, evNaN, evSignal]"]
  obtain w h' b where run: "PostBatch PerIteration demoLibs liveHandler ''c-1''
        (Inr [evWageBad, evNaN, evSignal]) = Returned (w, h')" "json_body w = BatchBody b"
    and st: "Status_batch b = (if DryRun liveHandler then ''dry-run'' else ''sent'')"
      "DryRun_batch b = DryRun liveHandler"
    by blast
  have live: "\<not> DryRun liveHandler"
    by (simp add: liveHandler_def NewEventHandler_def)
  have "map_exec (\<lambda>(w, h'). case json_body w of BatchBody b \<Rightarrow> map Status_item (Results b) | _ \<Rightarrow> [])
          (PostBatch PerIteration demoLibs liveHandler ''c-1'' (Inr [evWageBad, evNaN, evSignal])) =
        Returned [''error'', ''error'', ''error'']"
    by (simp add: PostBatch_def batchItem_def validateEventSchema_def Send_def resolveTopic_def
        eventTypeTopicMap_def reqAddr_def Let_def demo_defs)
  with run have "map Status_item (Results b) = [''error'', ''error'', ''error'']" by simp
  with run st live show ?thesis using wired_liveHandler by auto
qed

text \<open>
  C8, as stated, fails: a batch request whose body does not decode is answered with
  400 Bad Request, not 200. And for a batch with a request that cannot be serialised the
  encoder fails on the entry that echoes it, so no body is written.
\<close>

theorem batch_400_or_no_body:
  "map_exec (status_code \<circ> fst)
     (PostBatch PerIteration demoLibs liveHandler ''c-1'' (Inl ''unexpected EOF'')) =
     Returned StatusBadRequest \<and>
   map_exec (status_code \<circ> fst)
     (PostBatch PerIteration demoLibs liveHandler ''c-1'' (Inl ''unexpected EOF'')) \<noteq>
     Returned StatusOK \<and>
   responseBody demoLibs
     (PostBatch PerIteration demoLibs liveHandler ''c-1'' (Inr [evWage, evNaN])) = None"
  by (simp add: responseBody_def body_sent_def encodes_def encodesEvent_def echoed_def
      PostBatch_def batchItem_def validateEventSchema_def Send_def resolveTopic_def
      eventTypeTopicMap_def reqAddr_def Let_def demo_defs)

text \<open>
  C8, amended. A batch request whose body does not decode gets 400 Bad Request with an
  error body. A batch request whose body decodes to requests that all serialise gets
  200 OK and the encoder writes the body of status, count, dry-run flag and results.
  Failures of items are reported in their entries and do not change the status code: an
  invalid item has status \<^verbatim>\<open>error\<close> with the validator's message, a valid one has
  status \<^verbatim>\<open>dry-run\<close>, \<^verbatim>\<open>sent\<close>, or \<^verbatim>\<open>error\<close> with the broker's message.
\<close>

theorem batch_decoded_body_gets_200:
  "(\<exists>w. PostBatch sem L h corrID (Inl err) = Returned (w, h) \<and>
      status_code w = StatusBadRequest \<and>
      body_sent L w = Some (H [(''status'', ''error''), (''error'', ''invalid batch body''),
                               (''details'', err), (''correlationId'', corrID)])) \<and>
   (wired h \<and> (\<forall>x\<in>set reqs. \<exists>bs. jsonMarshal L x = Inr bs) \<longrightarrow>
      (\<exists>w h' b. PostBatch sem L h corrID (Inr reqs) = Returned (w, h') \<and>
         status_code w = StatusOK \<and> body_sent L w = Some (BatchBody b) \<and>
         Status_batch b = (if DryRun h then ''dry-run'' else ''sent'') \<and>
         Count b = length reqs \<and> DryRun_batch b = DryRun h \<and>
         length (Results b) = length reqs \<and>
         (\<forall>i<length reqs. Index (Results b ! i) = i \<and>
            (\<forall>e. validateEventSchema (reqs ! i) = Some e \<longrightarrow>
               Status_item (Results b ! i) = ''error'' \<and>
               Error_item (Results b ! i) = ''schema validation failed: '' @ e) \<and>
            (validateEventSchema (reqs ! i) = None \<longrightarrow>
               (DryRun h \<and> Status_item (Results b ! i) = ''dry-run'') \<or>
               (\<not> DryRun h \<and> Status_item (Results b ! i) = ''sent'') \<or>
               (\<not> DryRun h \<and> Status_item (Results b ! i) = ''error'' \<and>
                  (\<exists>e. Error_item (Results b ! i) = ''send error: '' @ e))))))"
proof (intro conjI impI)
  show "\<exists>w. PostBatch sem L h corrID (Inl err) = Returned (w, h) \<and>
      status_code w = StatusBadRequest \<and>
      body_sent L w = Some (H [(''status'', ''error''), (''error'', ''invalid batch body''),
                               (''details'', err), (''correlationId'', corrID)])"
    by (simp add: PostBatch_def body_sent_def encodes_def)
next
  assume a: "wired h \<and> (\<forall>x\<in>set reqs. \<exists>bs. jsonMarshal L x = Inr bs)"
  then have w: "wired h" and ser: "\<forall>x\<in>set reqs. \<exists>bs. jsonMarshal L x = Inr bs" by auto
  from batchLoop_run[OF w, of sem L corrID 0 reqs Map.empty "[]"]
  obtain h' hp' rs where run: "batchLoop sem L corrID 0 reqs (h, Map.empty, []) = Returned (h', hp', rs)"
    and len: "length rs = length reqs"
    and items: "\<forall>k<length reqs. \<exists>hk hk'. wired hk \<and> DryRun hk = DryRun h \<and> Topic hk = Topic h \<and>
               batchItem L hk corrID k (reqAddr sem k) (reqs ! k) = Returned (rs ! k, hk')"
    by auto
  have enc: "list_all (\<lambda>r. encodesEvent L hp' (Event_item r)) rs"
    by (rule batch_encodes[OF w run ser])
  have entries: "\<forall>i<length reqs. Index (rs ! i) = i \<and>
            (\<forall>e. validateEventSchema (reqs ! i) = Some e \<longrightarrow>
               Status_item (rs ! i) = ''error'' \<and>
               Error_item (rs ! i) = ''schema validation failed: '' @ e) \<and>
            (validateEventSchema (reqs ! i) = None \<longrightarrow>
               (DryRun h \<and> Status_item (rs ! i) = ''dry-run'') \<or>
               (\<not> DryRun h \<and> Status_item (rs ! i) = ''sent'') \<or>
               (\<not> DryRun h \<and> Status_item (rs ! i) = ''error'' \<and>
                  (\<exists>e. Error_item (rs ! i) = ''send error: '' @ e)))"
  proof (intro allI impI)
    fix i assume i: "i < length reqs"
    with items obtain hk hk' where hk: "wired hk" "DryRun hk = DryRun h"
      "batchItem L hk corrID i (reqAddr sem i) (reqs ! i) = Returned (rs ! i, hk')"
      by blast
    from batchItem_wired[OF hk(1), of L corrID i "reqAddr sem i" "reqs ! i"] hk(3)
    have idx: "Index (rs ! i) = i" by auto
    have inv: "\<forall>e. validateEventSchema (reqs ! i) = Some e \<longrightarrow>
               Status_item (rs ! i) = ''error'' \<and>
               Error_item (rs ! i) = ''schema validation failed: '' @ e"
      using hk(3) batchItem_invalid[of "reqs ! i" _ L hk corrID i "reqAddr sem i"] by auto
    have ok: "validateEventSchema (reqs ! i) = None \<longrightarrow>
               (DryRun h \<and> Status_item (rs ! i) = ''dry-run'') \<or>
               (\<not> DryRun h \<and> Status_item (rs ! i) = ''sent'') \<or>
               (\<not> DryRun h \<and> Status_item (rs ! i) = ''error'' \<and>
                  (\<exists>e. Error_item (rs ! i) = ''send error: '' @ e))"
    proof
      assume v: "validateEventSchema (reqs ! i) = None"
      from i have "reqs ! i \<in> set reqs" by simp
      with ser obtain bs where m: "jsonMarshal L (reqs ! i) = Inr bs" by blast
      from batchItem_status[OF hk(1) hk(3) v m] hk(2)
      show "(DryRun h \<and> Status_item (rs ! i) = ''dry-run'') \<or>
               (\<not> DryRun h \<and> Status_item (rs ! i) = ''sent'') \<or>
               (\<not> DryRun h \<and> Status_item (rs ! i) = ''error'' \<and>
                  (\<exists>e. Error_item (rs ! i) = ''send error: '' @ e))"
        by simp
    qed
    from idx inv ok show "Index (rs ! i) = i \<and>
            (\<forall>e. validateEventSchema (reqs ! i) = Some e \<longrightarrow>
               Status_item (rs ! i) = ''error'' \<and>
               Error_item (rs ! i) = ''schema validation failed: '' @ e) \<and>
            (validateEventSchema (reqs ! i) = None \<longrightarrow>
               (DryRun h \<and> Status_item (rs ! i) = ''dry-run'') \<or>
               (\<not> DryRun h \<and> Status_item (rs ! i) = ''sent'') \<or>
               (\<not> DryRun h \<and> Status_item (rs ! i) = ''error'' \<and>
                  (\<exists>e. Error_item (rs ! i) = ''send error: '' @ e)))"
      by (intro conjI)
  qed
  let ?b = "\<lparr>Status_batch = (if DryRun h then ''dry-run'' else ''sent''),
              Count = length rs, DryRun_batch = DryRun h, Results = rs\<rparr>"
  let ?w = "\<lparr>status_code = StatusOK, json_body = BatchBody ?b, heap_written = hp'\<rparr>"
  have p: "PostBatch sem L h corrID (Inr reqs) = Returned (?w, h')"
    using run by (simp add: PostBatch_def)
  have sent: "body_sent L ?w = Some (BatchBody ?b)"
    using enc by (simp add: body_sent_def encodes_def)
  show "\<exists>w h' b. PostBatch sem L h corrID (Inr reqs) = Returned (w, h') \<and>
         status_code w = StatusOK \<and> body_sent L w = Some (BatchBody b) \<and>
         Status_batch b = (if DryRun h then ''dry-run'' else ''sent'') \<and>
         Count b = length reqs \<and> DryRun_batch b = DryRun h \<and>
         length (Results b) = length reqs \<and>
         (\<forall>i<length reqs. Index (Results b ! i) = i \<and>
            (\<forall>e. validateEventSchema (reqs ! i) = Some e \<longrightarrow>
               Status_item (Results b ! i) = ''error'' \<and>
               Error_item (Results b ! i) = ''schema validation failed: '' @ e) \<and>
            (validateEventSchema (reqs ! i) = None \<longrightarrow>
               (DryRun h \<and> Status_item (Results b ! i) = ''dry-run'') \<or>
               (\<not> DryRun h \<and> Status_item (Results b ! i) = ''sent'') \<or>
               (\<not> DryRun h \<and> Status_item (Results b ! i) = ''error'' \<and>
                  (\<exists>e. Error_item (Results b ! i) = ''send error: '' @ e))))"
    apply (rule exI[of _ ?w])
    apply (rule exI[of _ h'])
    apply (rule exI[of _ ?b])
    apply (intro conjI)
    subgoal by (rule p)
    subgoal by simp
    subgoal by (rule sent)
    subgoal by simp
    subgoal by (simp add: len)
    subgoal by simp
    subgoal by (simp add: len)
    subgoal using entries by simp
    done
qed

theorem batch_decoded_body_gets_200_witness:
  "wired liveHandler \<and>
   jsonMarshal demoLibs evWageBad = Inr ''WAGE_ERROR:EverESSt'' \<and>
   jsonMarshal demoLibs evSignal = Inr ''SIGNALITIEK_ERROR:EverESSt'' \<and>
   (\<exists>w h' b. PostBatch PerIteration demoLibs liveHandler ''c-1'' (Inr [evWageBad, evSignal]) =
        Returned (w, h') \<and>
      status_code w = StatusOK \<and> body_sent demoLibs w = Some (BatchBody b) \<and>
      Status_batch b = ''sent'' \<and> Count b = 2 \<and> length (Results b) = 2 \<and>
      Status_item (Results b ! 0) = ''error'' \<and>
      Error_item (Results b ! 0) =
        ''schema validation failed: payload.dossierId is required for WAGE_ERROR'')"
proof -
  have m: "jsonMarshal demoLibs evWageBad = Inr ''WAGE_ERROR:EverESSt''"
    "jsonMarshal demoLibs evSignal = Inr ''SIGNALITIEK_ERROR:EverESSt''"
    by (simp_all add: demoLibs_def evWageBad_def evSignal_def)
  then have ser: "\<forall>x\<in>set [evWageBad, evSignal]. \<exists>bs. jsonMarshal demoLibs x = Inr bs"
    by simp
  have d: "\<not> DryRun liveHandler"
    by (simp add: liveHandler_def NewEventHandler_def)
  have v: "validateEventSchema ([evWageBad, evSignal] ! 0) =
      Some ''payload.dossierId is required for WAGE_ERROR''"
    by (simp add: validateEventSchema_def evWageBad_def)
  from batch_decoded_body_gets_200[of PerIteration demoLibs liveHandler "''c-1''" "''''"
      "[evWageBad, evSignal]"] wired_liveHandler ser
  obtain w h' b where run: "PostBatch PerIteration demoLibs liveHandler ''c-1''
        (Inr [evWageBad, evSignal]) = Returned (w, h')"
      "status_code w = StatusOK" "body_sent demoLibs w = Some (BatchBody b)"
    and st: "Status_batch b = (if DryRun liveHandler then ''dry-run'' else ''sent'')"
      "Count b = length [evWageBad, evSignal]" "length (Results b) = length [evWageBad, evSignal]"
    and entries: "\<forall>i<length [evWageBad, evSignal]. Index (Results b ! i) = i \<and>
            (\<forall>e. validateEventSchema ([evWageBad, evSignal] ! i) = Some e \<longrightarrow>
               Status_item (Results b ! i) = ''error'' \<and>
               Error_item (Results b ! i) = ''schema validation failed: '' @ e) \<and>
            (validateEventSchema ([evWageBad, evSignal] ! i) = None \<longrightarrow>
               (DryRun liveHandler \<and> Status_item (Results b ! i) = ''dry-run'') \<or>
               (\<not> DryRun liveHandler \<and> Status_item (Results b ! i) = ''sent'') \<or>
               (\<not> DryRun liveHandler \<and> Status_item (Results b ! i) = ''error'' \<and>
                  (\<exists>e. Error_item (Results b ! i) = ''send error: '' @ e)))"
    by blast
  from entries have "\<forall>e. validateEventSchema ([evWageBad, evSignal] ! 0) = Some e \<longrightarrow>
               Status_item (Results b ! 0) = ''error'' \<and>
               Error_item (Results b ! 0) = ''schema validation failed: '' @ e"
    by simp
  with v have e0: "Status_item (Results b ! 0) = ''error''"
    "Error_item (Results b ! 0) =
        ''schema validation failed: payload.dossierId is required for WAGE_ERROR''"
    by simp_all
  from st d have "Status_batch b = ''sent''" "Count b = 2" "length (Results b) = 2" by simp_all
  with run e0 m wired_liveHandler show ?thesis by blast
qed

section \<open>The single-event handler\<close>

text \<open>
  C7, as stated, fails: in dry-run mode a valid, serialisable event is answered with
  200 OK, not 201 Created.
\<close>

theorem single_event_dry_run_is_200:
  "validateEventSchema evSignal = None \<and>
   jsonMarshal demoLibs evSignal = Inr ''SIGNALITIEK_ERROR:EverESSt'' \<and>
   DryRun dryHandler \<and>
   map_exec (status_code \<circ> fst) (PostEvent demoLibs dryHandler ''c-1'' (Inr evSignal)) =
     Returned StatusOK \<and>
   map_exec (status_code \<circ> fst) (PostEvent demoLibs dryHandler ''c-1'' (Inr evSignal)) \<noteq>
     Returned StatusCreated"
  by (simp add: PostEvent_def validateEventSchema_def resolveTopic_def eventTypeTopicMap_def
      Let_def demo_defs)

text \<open>
  C7, amended. For a single event that passes validation and serialisation the response
  is 200 OK with status \<^verbatim>\<open>dry-run\<close> in dry-run mode, and 201 Created with status
  \<^verbatim>\<open>sent\<close> and the broker's message identifier when the handler is live and the
  broker accepts the message.
\<close>

theorem single_event_success_codes:
  assumes "validateEventSchema req = None" and "jsonMarshal L req = Inr bs"
  shows "(DryRun h \<longrightarrow>
            (\<exists>w e. PostEvent L h corrID (Inr req) = Returned (w, h) \<and>
               status_code w = StatusOK \<and> json_body w = EventBody e \<and>
               Status_resp e = ''dry-run'')) \<and>
         (\<not> DryRun h \<and> Producer h = Some conn \<and> pulsarSend L conn bs = (Inr msgID, conn') \<longrightarrow>
            (\<exists>w e. PostEvent L h corrID (Inr req) = Returned (w, h\<lparr>Producer := Some conn'\<rparr>) \<and>
               status_code w = StatusCreated \<and> json_body w = EventBody e \<and>
               Status_resp e = ''sent'' \<and> MessageID_resp e = msgID))"
  using assms by (simp add: PostEvent_def Let_def Send_def)

theorem single_event_success_codes_witness:
  "validateEventSchema evSignal = None \<and>
   jsonMarshal demoLibs evSignal = Inr ''SIGNALITIEK_ERROR:EverESSt'' \<and> DryRun dryHandler \<and>
   (\<exists>w e. PostEvent demoLibs dryHandler ''c-1'' (Inr evSignal) = Returned (w, dryHandler) \<and>
      status_code w = StatusOK \<and> json_body w = EventBody e \<and> Status_resp e = ''dry-run'') \<and>
   validateEventSchema evWage = None \<and>
   jsonMarshal demoLibs evWage = Inr ''WAGE_ERROR:EverESSt'' \<and> \<not> DryRun liveHandler \<and>
   Producer liveHandler = Some [] \<and>
   pulsarSend demoLibs [] ''WAGE_ERROR:EverESSt'' = (Inr ''1:0:0'', [''WAGE_ERROR:EverESSt'']) \<and>
   (\<exists>w e. PostEvent demoLibs liveHandler ''c-1'' (Inr evWage) =
        Returned (w, liveHandler\<lparr>Producer := Some [''WAGE_ERROR:EverESSt'']\<rparr>) \<and>
      status_code w = StatusCreated \<and> json_body w = EventBody e \<and>
      Status_resp e = ''sent'' \<and> MessageID_resp e = ''1:0:0'')"
proof -
  have v1: "validateEventSchema evSignal = None"
    by (simp add: validateEventSchema_def evSignal_def)
  have m1: "jsonMarshal demoLibs evSignal = Inr ''SIGNALITIEK_ERROR:EverESSt''"
    by (simp add: demoLibs_def evSignal_def)
  have d1: "DryRun dryHandler"
    by (simp add: dryHandler_def NewEventHandler_def)
  have v2: "validateEventSchema evWage = None"
    by (simp add: validateEventSchema_def evWage_def)
  have m2: "jsonMarshal demoLibs evWage = Inr ''WAGE_ERROR:EverESSt''"
    by (simp add: demoLibs_def evWage_def)
  have d2: "\<not> DryRun liveHandler" "Producer liveHandler = Some []"
    by (simp_all add: liveHandler_def NewEventHandler_def)
  have s2: "pulsarSend demoLibs [] ''WAGE_ERROR:EverESSt'' = (Inr ''1:0:0'', [''WAGE_ERROR:EverESSt''])"
    by (simp add: demoLibs_def)
  from single_event_success_codes[OF v1 m1, of dryHandler "''c-1''"] d1
  have dry: "\<exists>w e. PostEvent demoLibs dryHandler ''c-1'' (Inr evSignal) = Returned (w, dryHandler) \<and>
      status_code w = StatusOK \<and> json_body w = EventBody e \<and> Status_resp e = ''dry-run''"
    by blast
  from single_event_success_codes[OF v2 m2, of liveHandler "''c-1''" "[]" "''1:0:0''"
      "[''WAGE_ERROR:EverESSt'']"] d2 s2
  have live: "\<exists>w e. PostEvent demoLibs liveHandler ''c-1'' (Inr evWage) =
        Returned (w, liveHandler\<lparr>Producer := Some [''WAGE_ERROR:EverESSt'']\<rparr>) \<and>
      status_code w = StatusCreated \<and> json_body w = EventBody e \<and>
      Status_resp e = ''sent'' \<and> MessageID_resp e = ''1:0:0''"
    by blast
  from v1 m1 d1 dry v2 m2 d2 s2 live show ?thesis by blast
qed

section \<open>The echoed event\<close>




text \<open>
  With the loop variable of Go before 1.22 (one variable for the whole loop) every entry
  of a batch points to that one variable, so every entry echoes the last request.
\<close>

lemma batch_echo_shared_variable:
  assumes "wired h" and "reqs \<noteq> []"
  shows "\<exists>w h' b. PostBatch PerLoop L h corrID (Inr reqs) = Returned (w, h') \<and>
            json_body w = BatchBody b \<and> length (Results b) = length reqs \<and>
            (\<forall>i<length reqs.
               echoed (heap_written w) (Event_item (Results b ! i)) = Some (last reqs))"
proof -
  from batchLoop_run[OF assms(1), of PerLoop L corrID 0 reqs Map.empty "[]"]
  obtain h' hp' rs where run: "batchLoop PerLoop L corrID 0 reqs (h, Map.empty, []) = Returned (h', hp', rs)"
    and len: "length rs = length reqs"
    and items: "\<forall>k<length reqs. \<exists>hk hk'. wired hk \<and> DryRun hk = DryRun h \<and> Topic hk = Topic h \<and>
               batchItem L hk corrID k (reqAddr PerLoop k) (reqs ! k) = Returned (rs ! k, hk')"
    by auto
  have "\<forall>i<length reqs. echoed hp' (Event_item (rs ! i)) = Some (last reqs)"
  proof (intro allI impI)
    fix i assume i: "i < length reqs"
    with items obtain hk hk' where k: "wired hk"
      "batchItem L hk corrID i (reqAddr PerLoop i) (reqs ! i) = Returned (rs ! i, hk')"
      by blast
    from batchItem_wired[OF k(1), of L corrID i "reqAddr PerLoop i" "reqs ! i"] k(2)
    have "Event_item (rs ! i) = Some 0" by (auto simp: reqAddr_def)
    moreover from batchLoop_heap_PerLoop[OF run] assms(2)
    have "hp' 0 = Some (last reqs)" by simp
    ultimately show "echoed hp' (Event_item (rs ! i)) = Some (last reqs)"
      by (simp add: echoed_def)
  qed
  with run len show ?thesis by (simp add: PostBatch_def)
qed

section \<open>The schema map is never read\<close>

text \<open>
  C10. Two handlers built by \<^verbatim>\<open>NewEventHandler\<close> from the same producer, topic and
  dry-run flag and from different schema maps answer every single-event request and every
  batch request alike: the same response (or the same panic) and the same producer state
  afterwards.
\<close>

theorem schemaMap_never_read:
  "map_exec fst (PostEvent L (NewEventHandler p topic dryRun m1) corrID ev) =
     map_exec fst (PostEvent L (NewEventHandler p topic dryRun m2) corrID ev) \<and>
   map_exec (Producer \<circ> snd) (PostEvent L (NewEventHandler p topic dryRun m1) corrID ev) =
     map_exec (Producer \<circ> snd) (PostEvent L (NewEventHandler p topic dryRun m2) corrID ev) \<and>
   map_exec fst (PostBatch sem L (NewEventHandler p topic dryRun m1) corrID evs) =
     map_exec fst (PostBatch sem L (NewEventHandler p topic dryRun m2) corrID evs) \<and>
   map_exec (Producer \<circ> snd) (PostBatch sem L (NewEventHandler p topic dryRun m1) corrID evs) =
     map_exec (Producer \<circ> snd) (PostBatch sem L (NewEventHandler p topic dryRun m2) corrID evs)"
proof -
  have e: "map_exec fst (PostEvent L (NewEventHandler p topic dryRun m) corrID ev) =
           map_exec fst (PostEvent L (NewEventHandler p topic dryRun Map.empty) corrID ev)"
    and ep: "map_exec (Producer \<circ> snd) (PostEvent L (NewEventHandler p topic dryRun m) corrID ev) =
           map_exec (Producer \<circ> snd) (PostEvent L (NewEventHandler p topic dryRun Map.empty) corrID ev)"
    and b: "map_exec fst (PostBatch sem L (NewEventHandler p topic dryRun m) corrID evs) =
           map_exec fst (PostBatch sem L (NewEventHandler p topic dryRun Map.empty) corrID evs)"
    and bp: "map_exec (Producer \<circ> snd) (PostBatch sem L (NewEventHandler p topic dryRun m) corrID evs) =
           map_exec (Producer \<circ> snd) (PostBatch sem L (NewEventHandler p topic dryRun Map.empty) corrID evs)"
    for m
    by (subst NewEventHandler_SchemaMap,
        simp add: PostEvent_SchemaMap PostBatch_SchemaMap exec.map_comp comp_def split_def
          del: One_nat_def)+
  show ?thesis
    by (simp only: e[of m1] e[of m2] ep[of m1] ep[of m2] b[of m1] b[of m2] bp[of m1] bp[of m2])
qed

end
